theory Spec2Isabelle
  imports Main
begin

section \<open>Strings, integers and floats of the Python source\<close>

text \<open>
  The development embeds \<^verbatim>\<open>generate_video.py\<close>: the two retrying remote stages
  (\<^verbatim>\<open>generate_image\<close>, \<^verbatim>\<open>generate_video_from_image\<close>), the three media-tool stages
  (\<^verbatim>\<open>add_text_overlay_to_video\<close>, \<^verbatim>\<open>create_fallback_video\<close>, \<^verbatim>\<open>concatenate_videos\<close>)
  and the orchestrator \<^verbatim>\<open>main\<close>. Paths and byte strings are strings.
\<close>

type_synonym path = string
type_synonym bytes = string

text \<open>\<^verbatim>\<open>str(n)\<close> for a Python int.\<close>

fun show_nat :: "nat \<Rightarrow> string" where
  "show_nat n =
     (if n < 10 then [''0123456789'' ! n]
      else show_nat (n div 10) @ [''0123456789'' ! (n mod 10)])"

declare show_nat.simps [simp del]

definition show_int :: "int \<Rightarrow> string" where
  "show_int i = (if i < 0 then ''-'' @ show_nat (nat (- i)) else show_nat (nat i))"

text \<open>\<^verbatim>\<open>sub in s\<close> for two Python strings.\<close>

fun starts_with :: "string \<Rightarrow> string \<Rightarrow> bool" where
  "starts_with [] s = True"
| "starts_with (p # ps) [] = False"
| "starts_with (p # ps) (c # cs) = (p = c \<and> starts_with ps cs)"

fun contains :: "string \<Rightarrow> string \<Rightarrow> bool" where
  "contains sub [] = (sub = [])"
| "contains sub (c # cs) = (starts_with sub (c # cs) \<or> contains sub cs)"

text \<open>
  Python floats are IEEE doubles; their arithmetic and printing are not re-implemented here.
  The float operations the program uses are parameters, over any carrier \<open>'f\<close>:
  \<^verbatim>\<open>float(i)\<close> (also the value of a literal such as \<^verbatim>\<open>6.0\<close>), \<^verbatim>\<open>x * y\<close>,
  \<^verbatim>\<open>int(x)\<close>, \<^verbatim>\<open>str(x)\<close> and \<^verbatim>\<open>float(s)\<close> (\<open>None\<close> when it raises ValueError).
  Durations are finite floats, so \<^verbatim>\<open>int(x)\<close> is total.
\<close>

record 'f float_ops =
  float_of_int :: "int \<Rightarrow> 'f"
  float_mul :: "'f \<Rightarrow> 'f \<Rightarrow> 'f"
  float_trunc :: "'f \<Rightarrow> int"
  float_str :: "'f \<Rightarrow> string"
  float_parse :: "string \<Rightarrow> 'f option"

text \<open>
  One instance, used to run the model: the floats whose value is a whole number of
  magnitude below \<open>10^15\<close>, carried by that number. On them Python computes products and
  truncation exactly and prints the digits followed by \<^verbatim>\<open>.0\<close>. \<open>float_parse\<close> reads
  only the strings this \<open>float_str\<close> prints.
\<close>

definition digit_val :: "char \<Rightarrow> nat option" where
  "digit_val c = map_of (zip ''0123456789'' [0, 1, 2, 3, 4, 5, 6, 7, 8, 9]) c"

fun read_nat :: "nat \<Rightarrow> string \<Rightarrow> nat option" where
  "read_nat acc [] = Some acc"
| "read_nat acc (c # cs) =
     (case digit_val c of None \<Rightarrow> None | Some d \<Rightarrow> read_nat (10 * acc + d) cs)"

definition read_whole :: "string \<Rightarrow> int option" where
  "read_whole s =
     (let body = (if starts_with ''-'' s then tl s else s);
          digits = takeWhile (\<lambda>c. c \<noteq> CHR ''.'') body
      in if digits = [] \<or> dropWhile (\<lambda>c. c \<noteq> CHR ''.'') body \<noteq> ''.0'' then None
         else (case read_nat 0 digits of
                 None \<Rightarrow> None
               | Some n \<Rightarrow> Some (if starts_with ''-'' s then - int n else int n)))"

definition whole_floats :: "int float_ops" where
  "whole_floats =
     \<lparr> float_of_int = (\<lambda>i. i),
       float_mul = (\<lambda>x y. x * y),
       float_trunc = (\<lambda>x. x),
       float_str = (\<lambda>x. show_int x @ ''.0''),
       float_parse = read_whole \<rparr>"

section \<open>The deterministic fallback stage: the command it builds\<close>

text \<open>
  \<^verbatim>\<open>create_fallback_video\<close>, lines 285-314: the filter graph, one f-string per branch of
  the \<^verbatim>\<open>if/elif/else\<close> on \<^verbatim>\<open>motion\<close>. \<open>frame_count\<close> is the text of
  \<^verbatim>\<open>{int(duration*25)}\<close>.
\<close>

definition frame_count :: "'f float_ops \<Rightarrow> 'f \<Rightarrow> string" where
  "frame_count F duration =
     show_int (float_trunc F (float_mul F duration (float_of_int F 25)))"

definition filter_complex :: "'f float_ops \<Rightarrow> 'f \<Rightarrow> string \<Rightarrow> string" where
  "filter_complex F duration motion =
     (if motion = ''slow zoom-in'' then
        ''[0:v]scale=8000:-1,zoompan=z='min(zoom+0.0003,1.12)':''
        @ ''d='' @ frame_count F duration @ '':x='iw/2-(iw/zoom/2)':y='ih/2-(ih/zoom/2)':''
        @ ''s=720x1280,setsar=1[v]''
      else if motion = ''slow outside-in drift'' then
        ''[0:v]scale=8000:-1,zoompan=z='min(zoom+0.0002,1.1)':''
        @ ''d='' @ frame_count F duration @ '':x='if(eq(on,1),iw/4,x-0.3)':y='ih/2-(ih/zoom/2)':''
        @ ''s=720x1280,setsar=1[v]''
      else if motion = ''slow follow'' then
        ''[0:v]scale=8000:-1,zoompan=z='1.08':''
        @ ''d='' @ frame_count F duration @ '':x='if(eq(on,1),0,x+0.8)':y='ih/2-(ih/zoom/2)':''
        @ ''s=720x1280,setsar=1[v]''
      else if motion = ''upward tilt'' then
        ''[0:v]scale=8000:-1,zoompan=z='1.1':''
        @ ''d='' @ frame_count F duration @ '':x='iw/2-(iw/zoom/2)':y='if(eq(on,1),ih/3,y-0.6)':''
        @ ''s=720x1280,setsar=1[v]''
      else
        ''[0:v]scale=8000:-1,zoompan=z='min(zoom+0.0003,1.1)':''
        @ ''d='' @ frame_count F duration @ '':x='iw/2-(iw/zoom/2)':y='ih/2-(ih/zoom/2)':''
        @ ''s=720x1280,setsar=1[v]'')"

text \<open>Lines 316-327: the argument vector handed to the media tool.\<close>

definition fallback_cmd :: "'f float_ops \<Rightarrow> path \<Rightarrow> path \<Rightarrow> 'f \<Rightarrow> string \<Rightarrow> string list" where
  "fallback_cmd F image_path output_video duration motion =
     [''ffmpeg'', ''-y'',
      ''-loop'', ''1'',
      ''-i'', image_path,
      ''-filter_complex'', filter_complex F duration motion,
      ''-map'', ''[v]'',
      ''-c:v'', ''libx264'',
      ''-t'', float_str F duration,
      ''-pix_fmt'', ''yuv420p'',
      ''-r'', ''25'',
      output_video]"

text \<open>The four preset names the \<^verbatim>\<open>if/elif\<close> chain recognises.\<close>

definition recognized_presets :: "string list" where
  "recognized_presets =
     [''slow zoom-in'', ''slow outside-in drift'', ''slow follow'', ''upward tilt'']"





definition quoted :: "string \<Rightarrow> string" where
  "quoted s = [CHR 0x27] @ s @ [CHR 0x27]"

section \<open>Exceptions, external operations and what a run is observed to do\<close>

text \<open>
  An exception is carried by its message \<^verbatim>\<open>str(e)\<close>. Only subclasses of
  \<^verbatim>\<open>Exception\<close> are modelled (not KeyboardInterrupt or SystemExit).
\<close>

datatype exn = Exception string

fun str_exn :: "exn \<Rightarrow> string" where
  "str_exn (Exception msg) = msg"

text \<open>
  \<^verbatim>\<open>subprocess.run(cmd, capture_output=True)\<close>: the tool ran and exited with a return code,
  standard output and standard error, or the process could not be started at all (OSError,
  for instance FileNotFoundError when the executable is absent).
\<close>

datatype proc = Completed int string string | Spawn_failed exn

text \<open>
  The handle of a long-running remote job: its \<^verbatim>\<open>done\<close> flag, and what evaluating
  \<^verbatim>\<open>operation.response.generated_videos[0]\<close> gives (a video reference, or the exception
  raised when the response or the list is missing).
\<close>

type_synonym video = string

record operation =
  op_done :: bool
  response_video :: "exn + video"

text \<open>
  The outside world (file system, remote service, clock, processes) is a state of any type
  \<open>'w\<close>, and every external operation the program performs is a parameter acting on it.
  An operation that can raise returns \<open>Inl\<close> of the exception.
\<close>

record 'w env =
  find_api_key :: "'w \<Rightarrow> string option"
  path_exists :: "'w \<Rightarrow> path \<Rightarrow> bool"
  sleep :: "nat \<Rightarrow> 'w \<Rightarrow> 'w"
  generate_images :: "string \<Rightarrow> 'w \<Rightarrow> (exn + bytes list) \<times> 'w"
  write_bytes :: "path \<Rightarrow> bytes \<Rightarrow> 'w \<Rightarrow> (exn + unit) \<times> 'w"
  read_bytes :: "path \<Rightarrow> 'w \<Rightarrow> (exn + bytes) \<times> 'w"
  generate_videos :: "string \<Rightarrow> bytes \<Rightarrow> 'w \<Rightarrow> (exn + operation) \<times> 'w"
  operations_get :: "operation \<Rightarrow> 'w \<Rightarrow> (exn + operation) \<times> 'w"
  files_download :: "video \<Rightarrow> 'w \<Rightarrow> (exn + unit) \<times> 'w"
  video_save :: "video \<Rightarrow> path \<Rightarrow> 'w \<Rightarrow> (exn + unit) \<times> 'w"
  subprocess_run :: "string list \<Rightarrow> 'w \<Rightarrow> proc \<times> 'w"
  write_text :: "path \<Rightarrow> string \<Rightarrow> 'w \<Rightarrow> (exn + unit) \<times> 'w"
  unlink :: "path \<Rightarrow> 'w \<Rightarrow> (exn + unit) \<times> 'w"

text \<open>
  The log of external operations performed, in order. A stage works on the pair of the
  world and this log.
\<close>

datatype op_event =
    Generate_images string
  | Write_bytes path bytes
  | Sleep nat
  | Read_bytes path
  | Generate_videos string bytes
  | Operations_get
  | Files_download video
  | Video_save video path
  | Subprocess_run "string list"
  | Write_text path string
  | Unlink path

type_synonym 'w sys = "'w \<times> op_event list"

definition do_sleep :: "'w env \<Rightarrow> nat \<Rightarrow> 'w sys \<Rightarrow> 'w sys" where
  "do_sleep E n s = (sleep E n (fst s), snd s @ [Sleep n])"

definition do_generate_images :: "'w env \<Rightarrow> string \<Rightarrow> 'w sys \<Rightarrow> (exn + bytes list) \<times> 'w sys" where
  "do_generate_images E prompt s =
     (case generate_images E prompt (fst s) of
        (r, w) \<Rightarrow> (r, (w, snd s @ [Generate_images prompt])))"

definition do_write_bytes :: "'w env \<Rightarrow> path \<Rightarrow> bytes \<Rightarrow> 'w sys \<Rightarrow> (exn + unit) \<times> 'w sys" where
  "do_write_bytes E p b s =
     (case write_bytes E p b (fst s) of (r, w) \<Rightarrow> (r, (w, snd s @ [Write_bytes p b])))"

definition do_read_bytes :: "'w env \<Rightarrow> path \<Rightarrow> 'w sys \<Rightarrow> (exn + bytes) \<times> 'w sys" where
  "do_read_bytes E p s =
     (case read_bytes E p (fst s) of (r, w) \<Rightarrow> (r, (w, snd s @ [Read_bytes p])))"

definition do_generate_videos ::
  "'w env \<Rightarrow> string \<Rightarrow> bytes \<Rightarrow> 'w sys \<Rightarrow> (exn + operation) \<times> 'w sys" where
  "do_generate_videos E prompt image_bytes s =
     (case generate_videos E prompt image_bytes (fst s) of
        (r, w) \<Rightarrow> (r, (w, snd s @ [Generate_videos prompt image_bytes])))"

definition do_operations_get ::
  "'w env \<Rightarrow> operation \<Rightarrow> 'w sys \<Rightarrow> (exn + operation) \<times> 'w sys" where
  "do_operations_get E operation s =
     (case operations_get E operation (fst s) of
        (r, w) \<Rightarrow> (r, (w, snd s @ [Operations_get])))"

definition do_files_download :: "'w env \<Rightarrow> video \<Rightarrow> 'w sys \<Rightarrow> (exn + unit) \<times> 'w sys" where
  "do_files_download E v s =
     (case files_download E v (fst s) of (r, w) \<Rightarrow> (r, (w, snd s @ [Files_download v])))"

definition do_video_save :: "'w env \<Rightarrow> video \<Rightarrow> path \<Rightarrow> 'w sys \<Rightarrow> (exn + unit) \<times> 'w sys" where
  "do_video_save E v p s =
     (case video_save E v p (fst s) of (r, w) \<Rightarrow> (r, (w, snd s @ [Video_save v p])))"

definition do_subprocess_run :: "'w env \<Rightarrow> string list \<Rightarrow> 'w sys \<Rightarrow> proc \<times> 'w sys" where
  "do_subprocess_run E cmd s =
     (case subprocess_run E cmd (fst s) of (r, w) \<Rightarrow> (r, (w, snd s @ [Subprocess_run cmd])))"

definition do_write_text :: "'w env \<Rightarrow> path \<Rightarrow> string \<Rightarrow> 'w sys \<Rightarrow> (exn + unit) \<times> 'w sys" where
  "do_write_text E p t s =
     (case write_text E p t (fst s) of (r, w) \<Rightarrow> (r, (w, snd s @ [Write_text p t])))"

definition do_unlink :: "'w env \<Rightarrow> path \<Rightarrow> 'w sys \<Rightarrow> (exn + unit) \<times> 'w sys" where
  "do_unlink E p s =
     (case unlink E p (fst s) of (r, w) \<Rightarrow> (r, (w, snd s @ [Unlink p])))"

section \<open>The image stage\<close>

text \<open>
  What an \<^verbatim>\<open>except Exception\<close> block decides: sleep that many seconds and go on to the
  next attempt, or return False at once.
\<close>

datatype retry = Wait nat | Give_up

text \<open>\<^verbatim>\<open>generate_image\<close>, lines 132-146: the handler, on \<^verbatim>\<open>error_str = str(e)\<close>.\<close>

definition image_retry :: "nat \<Rightarrow> int \<Rightarrow> string \<Rightarrow> retry" where
  "image_retry attempt max_retries error_str =
     (if contains ''429'' error_str \<or> contains ''RESOURCE_EXHAUSTED'' error_str then
        Wait (min (2 ^ attempt * 10) 120)
      else if contains ''503'' error_str \<or> contains ''UNAVAILABLE'' error_str then
        Wait (min (2 ^ attempt * 5) 60)
      else if int attempt = max_retries - 1 then Give_up
      else Wait 5)"

text \<open>
  Lines 113-130, the body of the \<^verbatim>\<open>try\<close>: the remote call, then the loop over
  \<^verbatim>\<open>response.generated_images\<close>, which writes the first image and returns True.
  \<open>Inr True\<close> is that return; \<open>Inr False\<close> is falling out of the loop over an empty list;
  \<open>Inl e\<close> is an exception raised inside the \<^verbatim>\<open>try\<close>: by the call, by reading the
  response (one without a list of images, for instance) or by the write.
\<close>

definition image_attempt :: "'w env \<Rightarrow> string \<Rightarrow> path \<Rightarrow> 'w sys \<Rightarrow> (exn + bool) \<times> 'w sys" where
  "image_attempt E prompt output_path s =
     (case do_generate_images E prompt s of
        (Inl e, s1) \<Rightarrow> (Inl e, s1)
      | (Inr generated_images, s1) \<Rightarrow>
          (case generated_images of
             [] \<Rightarrow> (Inr False, s1)
           | generated_image # rest \<Rightarrow>
               (case do_write_bytes E output_path generated_image s1 of
                  (Inl e, s2) \<Rightarrow> (Inl e, s2)
                | (Inr u, s2) \<Rightarrow> (Inr True, s2))))"

text \<open>Lines 112 and 147: \<^verbatim>\<open>for attempt in range(max_retries)\<close>, from \<open>attempt\<close> on.\<close>

function generate_image_loop ::
  "'w env \<Rightarrow> string \<Rightarrow> path \<Rightarrow> int \<Rightarrow> nat \<Rightarrow> 'w sys \<Rightarrow> bool \<times> 'w sys" where
  "generate_image_loop E prompt output_path max_retries attempt s =
     (if \<not> int attempt < max_retries then (False, s)
      else
        (case image_attempt E prompt output_path s of
           (Inr returned, s1) \<Rightarrow>
             (if returned then (True, s1)
              else generate_image_loop E prompt output_path max_retries (Suc attempt) s1)
         | (Inl e, s1) \<Rightarrow>
             (case image_retry attempt max_retries (str_exn e) of
                Give_up \<Rightarrow> (False, s1)
              | Wait wait_time \<Rightarrow>
                  generate_image_loop E prompt output_path max_retries (Suc attempt)
                    (do_sleep E wait_time s1))))"
  by pat_completeness auto
termination
  by (relation "measure (\<lambda>(E, prompt, output_path, max_retries, attempt, s).
                   nat (max_retries - int attempt))") auto

declare generate_image_loop.simps [simp del]

definition generate_image :: "'w env \<Rightarrow> string \<Rightarrow> path \<Rightarrow> int \<Rightarrow> 'w sys \<Rightarrow> bool \<times> 'w sys" where
  "generate_image E prompt output_path max_retries s =
     generate_image_loop E prompt output_path max_retries 0 s"

section \<open>The animation stage\<close>

text \<open>\<^verbatim>\<open>generate_video_from_image\<close>, lines 204-214: the handler.\<close>

definition video_retry :: "nat \<Rightarrow> int \<Rightarrow> string \<Rightarrow> retry" where
  "video_retry attempt max_retries error_str =
     (if contains ''429'' error_str \<or> contains ''RESOURCE_EXHAUSTED'' error_str then
        Wait (min (2 ^ attempt * 30) 180)
      else if int attempt = max_retries - 1 then Give_up
      else Wait 10)"

text \<open>
  The result of code that may raise or poll forever: \<open>Unfinished\<close> is the polling loop
  still running when the bound on its iterations (\<open>fuel\<close>) is used up.
\<close>

datatype 'a result = Ok 'a | Raised exn | Unfinished

text \<open>
  Lines 185-191: \<^verbatim>\<open>while not operation.done\<close>, sleeping ten seconds before each
  re-query. The poll counter only drives a progress message and is left out.
\<close>

fun poll :: "'w env \<Rightarrow> nat \<Rightarrow> operation \<Rightarrow> 'w sys \<Rightarrow> operation result \<times> 'w sys" where
  "poll E 0 operation s = (if op_done operation then (Ok operation, s) else (Unfinished, s))"
| "poll E (Suc fuel) operation s =
     (if op_done operation then (Ok operation, s)
      else
        (case do_operations_get E operation (do_sleep E 10 s) of
           (Inl e, s1) \<Rightarrow> (Raised e, s1)
         | (Inr operation', s1) \<Rightarrow> poll E fuel operation' s1))"

text \<open>Lines 155-202, the body of the \<^verbatim>\<open>try\<close>.\<close>

definition video_attempt ::
  "'w env \<Rightarrow> nat \<Rightarrow> path \<Rightarrow> string \<Rightarrow> path \<Rightarrow> 'w sys \<Rightarrow> unit result \<times> 'w sys" where
  "video_attempt E fuel image_path prompt output_path s =
     (case do_read_bytes E image_path s of
        (Inl e, s1) \<Rightarrow> (Raised e, s1)
      | (Inr image_bytes, s1) \<Rightarrow>
          (case do_generate_videos E prompt image_bytes s1 of
             (Inl e, s2) \<Rightarrow> (Raised e, s2)
           | (Inr operation, s2) \<Rightarrow>
               (case poll E fuel operation s2 of
                  (Raised e, s3) \<Rightarrow> (Raised e, s3)
                | (Unfinished, s3) \<Rightarrow> (Unfinished, s3)
                | (Ok operation', s3) \<Rightarrow>
                    (case response_video operation' of
                       Inl e \<Rightarrow> (Raised e, s3)
                     | Inr generated_video \<Rightarrow>
                         (case do_files_download E generated_video s3 of
                            (Inl e, s4) \<Rightarrow> (Raised e, s4)
                          | (Inr u, s4) \<Rightarrow>
                              (case do_video_save E generated_video output_path s4 of
                                 (Inl e, s5) \<Rightarrow> (Raised e, s5)
                               | (Inr u', s5) \<Rightarrow> (Ok (), s5)))))))"

text \<open>
  Lines 153 and 215: the loop over the attempts. \<open>None\<close> is a run whose polling loop used
  up its fuel; \<open>Some b\<close> is the stage returning \<open>b\<close>.
\<close>

function generate_video_loop ::
  "'w env \<Rightarrow> nat \<Rightarrow> path \<Rightarrow> string \<Rightarrow> path \<Rightarrow> int \<Rightarrow> nat \<Rightarrow> 'w sys \<Rightarrow> bool option \<times> 'w sys" where
  "generate_video_loop E fuel image_path prompt output_path max_retries attempt s =
     (if \<not> int attempt < max_retries then (Some False, s)
      else
        (case video_attempt E fuel image_path prompt output_path s of
           (Ok u, s1) \<Rightarrow> (Some True, s1)
         | (Unfinished, s1) \<Rightarrow> (None, s1)
         | (Raised e, s1) \<Rightarrow>
             (case video_retry attempt max_retries (str_exn e) of
                Give_up \<Rightarrow> (Some False, s1)
              | Wait wait_time \<Rightarrow>
                  generate_video_loop E fuel image_path prompt output_path max_retries
                    (Suc attempt) (do_sleep E wait_time s1))))"
  by pat_completeness auto
termination
  by (relation "measure (\<lambda>(E, fuel, image_path, prompt, output_path, max_retries, attempt, s).
                   nat (max_retries - int attempt))") auto

declare generate_video_loop.simps [simp del]

definition generate_video_from_image ::
  "'w env \<Rightarrow> nat \<Rightarrow> path \<Rightarrow> string \<Rightarrow> path \<Rightarrow> int \<Rightarrow> 'w sys \<Rightarrow> bool option \<times> 'w sys" where
  "generate_video_from_image E fuel image_path prompt output_path max_retries s =
     generate_video_loop E fuel image_path prompt output_path max_retries 0 s"


section \<open>The caption overlay stage\<close>

text \<open>Line 221: the chain of \<^verbatim>\<open>str.replace\<close> calls, each on a single character.\<close>

definition replace_char :: "char \<Rightarrow> string \<Rightarrow> string \<Rightarrow> string" where
  "replace_char c r s = concat (map (\<lambda>x. if x = c then r else [x]) s)"

definition escape_text :: "string \<Rightarrow> string" where
  "escape_text text_in =
     replace_char (CHR ''%'') [CHR 0x5C, CHR ''%'']
       (replace_char (CHR '':'') [CHR 0x5C, CHR '':'']
          (replace_char (CHR 0x27) [CHR 0x27, CHR 0x5C, CHR 0x27, CHR 0x27]
             (replace_char (CHR 0x5C) [CHR 0x5C, CHR 0x5C] text_in)))"

text \<open>Lines 224-238: the first font file that exists, else the name \<^verbatim>\<open>Times\<close>.\<close>

definition font_options :: "path list" where
  "font_options =
     [''/System/Library/Fonts/Supplemental/Times New Roman.ttf'',
      ''/System/Library/Fonts/Times.ttc'',
      ''/System/Library/Fonts/NewYork.ttf'',
      ''/usr/share/fonts/truetype/dejavu/DejaVuSerif.ttf'']"

definition select_font :: "'w env \<Rightarrow> 'w \<Rightarrow> string" where
  "select_font E w =
     (case filter (path_exists E w) font_options of [] \<Rightarrow> ''Times'' | font # rest \<Rightarrow> font)"

text \<open>
  Lines 241-268: the drawtext filter and the command. \<^verbatim>\<open>FONT_SIZE\<close> is 42 and
  \<^verbatim>\<open>TEXT_Y_PERCENT\<close> is the float 0.25, which Python prints as \<^verbatim>\<open>0.25\<close>.
\<close>

definition drawtext_filter :: "string \<Rightarrow> string \<Rightarrow> string" where
  "drawtext_filter font_file escaped_text =
     ''drawtext=fontfile='' @ quoted font_file @ '':''
     @ ''text='' @ quoted escaped_text @ '':''
     @ ''fontsize=42:''
     @ ''fontcolor=white:''
     @ ''borderw=2:''
     @ ''bordercolor=black@0.7:''
     @ ''shadowcolor=black@0.9:''
     @ ''shadowx=3:shadowy=3:''
     @ ''x=(w-text_w)/2:''
     @ ''y=h*0.25:''
     @ ''line_spacing=12''"

definition overlay_cmd :: "string \<Rightarrow> path \<Rightarrow> path \<Rightarrow> string \<Rightarrow> string list" where
  "overlay_cmd font_file input_video output_video text_in =
     [''ffmpeg'', ''-y'',
      ''-i'', input_video,
      ''-vf'', drawtext_filter font_file (escape_text text_in),
      ''-c:v'', ''libx264'',
      ''-an'',
      ''-preset'', ''medium'',
      output_video]"

text \<open>
  Lines 270-278: the tool is run without \<^verbatim>\<open>check\<close>; a non-zero return code gives False,
  and \<^verbatim>\<open>except Exception\<close> turns a failure to start the tool into False as well.
\<close>

definition add_text_overlay_to_video ::
  "'w env \<Rightarrow> path \<Rightarrow> path \<Rightarrow> string \<Rightarrow> 'w sys \<Rightarrow> bool \<times> 'w sys" where
  "add_text_overlay_to_video E input_video output_video text_in s =
     (case do_subprocess_run E
             (overlay_cmd (select_font E (fst s)) input_video output_video text_in) s of
        (Completed returncode out err, s1) \<Rightarrow> (if returncode \<noteq> 0 then (False, s1) else (True, s1))
      | (Spawn_failed e, s1) \<Rightarrow> (False, s1))"

section \<open>The fallback stage and the assembly stage\<close>

text \<open>
  \<^verbatim>\<open>create_fallback_video\<close>, lines 329-334: \<^verbatim>\<open>subprocess.run(cmd, check=True)\<close> raises
  CalledProcessError on a non-zero return code, which the only \<^verbatim>\<open>except\<close> clause catches
  and turns into False. Any other exception of the call leaves the function: \<open>Inl\<close>.
  (The standard error of the tool is taken to decode as text.)
\<close>

definition create_fallback_video ::
  "'f float_ops \<Rightarrow> 'w env \<Rightarrow> path \<Rightarrow> path \<Rightarrow> 'f \<Rightarrow> string \<Rightarrow> 'w sys \<Rightarrow> (exn + bool) \<times> 'w sys" where
  "create_fallback_video F E image_path output_video duration motion s =
     (case do_subprocess_run E (fallback_cmd F image_path output_video duration motion) s of
        (Completed returncode out err, s1) \<Rightarrow>
          (if returncode \<noteq> 0 then (Inr False, s1) else (Inr True, s1))
      | (Spawn_failed e, s1) \<Rightarrow> (Inl e, s1))"

text \<open>
  \<^verbatim>\<open>concatenate_videos\<close>, lines 339-359. The manifest is written before the \<^verbatim>\<open>try\<close>;
  inside it the tool is run with \<^verbatim>\<open>check=True\<close> and the manifest is deleted; again only
  CalledProcessError is caught. \<^verbatim>\<open>OUTPUT_DIR\<close> is a parameter.
\<close>

definition manifest :: "path list \<Rightarrow> string" where
  "manifest video_files =
     concat (map (\<lambda>video. ''file '' @ quoted video @ [CHR 0x0A]) video_files)"

definition concat_cmd :: "path \<Rightarrow> path \<Rightarrow> string list" where
  "concat_cmd concat_file output_video =
     [''ffmpeg'', ''-y'',
      ''-f'', ''concat'',
      ''-safe'', ''0'',
      ''-i'', concat_file,
      ''-c'', ''copy'',
      output_video]"

definition concatenate_videos ::
  "'w env \<Rightarrow> path \<Rightarrow> path list \<Rightarrow> path \<Rightarrow> 'w sys \<Rightarrow> (exn + bool) \<times> 'w sys" where
  "concatenate_videos E output_dir video_files output_video s =
     (let concat_file = output_dir @ ''/concat.txt'' in
      case do_write_text E concat_file (manifest video_files) s of
        (Inl e, s1) \<Rightarrow> (Inl e, s1)
      | (Inr u, s1) \<Rightarrow>
          (case do_subprocess_run E (concat_cmd concat_file output_video) s1 of
             (Spawn_failed e, s2) \<Rightarrow> (Inl e, s2)
           | (Completed returncode out err, s2) \<Rightarrow>
               (if returncode \<noteq> 0 then (Inr False, s2)
                else
                  (case do_unlink E concat_file s2 of
                     (Inl e, s3) \<Rightarrow> (Inl e, s3)
                   | (Inr u', s3) \<Rightarrow> (Inr True, s3)))))"

section \<open>The orchestrator\<close>

text \<open>An entry of \<^verbatim>\<open>SCENES\<close>. The list itself is a parameter of the run.\<close>

record scene =
  scene_id :: int
  scene_text :: string
  objective :: string
  camera :: string
  scene_prompt :: string

text \<open>Lines 384-386: the three artifact paths of a scene.\<close>

definition raw_image :: "path \<Rightarrow> scene \<Rightarrow> path" where
  "raw_image output_dir sc = output_dir @ ''/scene_'' @ show_int (scene_id sc) @ ''_raw.png''"

definition raw_video :: "path \<Rightarrow> scene \<Rightarrow> path" where
  "raw_video output_dir sc = output_dir @ ''/scene_'' @ show_int (scene_id sc) @ ''_raw.mp4''"

definition final_video :: "path \<Rightarrow> scene \<Rightarrow> path" where
  "final_video output_dir sc = output_dir @ ''/scene_'' @ show_int (scene_id sc) @ ''.mp4''"

text \<open>Lines 403-406.\<close>

definition animation_prompt :: "scene \<Rightarrow> string" where
  "animation_prompt sc =
     ''Gentle living painting animation like a Van Gogh artwork coming to life.'' @ [CHR 0x0A]
     @ camera sc
     @ ''. Subtle organic movement - brushstrokes seem to flow, colors breathe and shift naturally.''
     @ [CHR 0x0A]
     @ ''Clouds drift with painted texture, light dances like in impressionist art. ''
     @ ''Maintain thick impasto oil painting look throughout.'' @ [CHR 0x0A]
     @ ''Movement should feel hand-animated, artistic, dreamlike. NOT realistic motion. ''
     @ ''8 seconds of peaceful contemplation.''"

text \<open>
  The stage calls the orchestrator makes, logged in order when they come back, with their
  arguments and what came back.
\<close>

datatype 'f call_event =
    Called_generate_image string path bool
  | Called_generate_video path string path "bool option"
  | Called_create_fallback path path 'f string "exn + bool"
  | Called_add_text_overlay path path string bool
  | Called_concatenate "path list" path "exn + bool"

text \<open>
  The state of a run: the local variables \<^verbatim>\<open>use_veo\<close> and \<^verbatim>\<open>scene_videos\<close> of
  \<^verbatim>\<open>main\<close>, the outside world with the log of operations, and the log of stage calls.
\<close>

record ('w, 'f) run_state =
  use_veo :: bool
  scene_videos :: "path list"
  outside :: "'w sys"
  calls :: "'f call_event list"

text \<open>
  Lines 388-395, step 1. The boolean is False when the body of the loop leaves through
  \<^verbatim>\<open>continue\<close>.
\<close>

definition image_step ::
  "'w env \<Rightarrow> path \<Rightarrow> scene \<Rightarrow> ('w, 'f) run_state \<Rightarrow> bool \<times> ('w, 'f) run_state" where
  "image_step E output_dir sc st =
     (if \<not> path_exists E (fst (outside st)) (raw_image output_dir sc) then
        (case generate_image E (scene_prompt sc) (raw_image output_dir sc) 5 (outside st) of
           (generated, s1) \<Rightarrow>
             (generated,
              st\<lparr>outside := s1,
                 calls := calls st
                   @ [Called_generate_image (scene_prompt sc) (raw_image output_dir sc) generated]\<rparr>))
      else (True, st))"

text \<open>
  Lines 399-414, the first half of step 2: the value of \<^verbatim>\<open>video_created\<close> afterwards,
  or \<open>None\<close> when the animation stage is still polling.
\<close>

definition animation_step ::
  "'w env \<Rightarrow> nat \<Rightarrow> path \<Rightarrow> scene \<Rightarrow> ('w, 'f) run_state \<Rightarrow> bool option \<times> ('w, 'f) run_state" where
  "animation_step E fuel output_dir sc st =
     (if use_veo st \<and> \<not> path_exists E (fst (outside st)) (raw_video output_dir sc) then
        (case generate_video_from_image E fuel (raw_image output_dir sc) (animation_prompt sc)
                (raw_video output_dir sc) 3 (outside st) of
           (returned, s1) \<Rightarrow>
             (let st1 = st\<lparr>outside := s1,
                           calls := calls st
                             @ [Called_generate_video (raw_image output_dir sc)
                                  (animation_prompt sc) (raw_video output_dir sc) returned]\<rparr>
              in case returned of
                   None \<Rightarrow> (None, st1)
                 | Some video_created \<Rightarrow>
                     (if \<not> video_created then (Some video_created, st1\<lparr>use_veo := False\<rparr>)
                      else (Some video_created, st1))))
      else (Some False, st))"

text \<open>
  Lines 416-424, the second half of step 2, from the value of \<^verbatim>\<open>video_created\<close> so far:
  its value afterwards, or the exception that left \<^verbatim>\<open>create_fallback_video\<close>.
\<close>

definition fallback_step ::
  "'f float_ops \<Rightarrow> 'w env \<Rightarrow> path \<Rightarrow> scene \<Rightarrow> bool \<Rightarrow> ('w, 'f) run_state
     \<Rightarrow> (exn + bool) \<times> ('w, 'f) run_state" where
  "fallback_step F E output_dir sc video_created st =
     (if \<not> video_created \<and> \<not> path_exists E (fst (outside st)) (raw_video output_dir sc) then
        (case create_fallback_video F E (raw_image output_dir sc) (raw_video output_dir sc)
                (float_of_int F 6) (camera sc) (outside st) of
           (returned, s1) \<Rightarrow>
             (returned,
              st\<lparr>outside := s1,
                 calls := calls st
                   @ [Called_create_fallback (raw_image output_dir sc) (raw_video output_dir sc)
                        (float_of_int F 6) (camera sc) returned]\<rparr>))
      else if path_exists E (fst (outside st)) (raw_video output_dir sc) then (Inr True, st)
      else (Inr video_created, st))"

text \<open>Lines 430-437, step 3.\<close>

definition overlay_step ::
  "'w env \<Rightarrow> path \<Rightarrow> scene \<Rightarrow> ('w, 'f) run_state \<Rightarrow> ('w, 'f) run_state" where
  "overlay_step E output_dir sc st =
     (case add_text_overlay_to_video E (raw_video output_dir sc) (final_video output_dir sc)
             (scene_text sc) (outside st) of
        (overlaid, s1) \<Rightarrow>
          st\<lparr>outside := s1,
             calls := calls st
               @ [Called_add_text_overlay (raw_video output_dir sc) (final_video output_dir sc)
                    (scene_text sc) overlaid],
             scene_videos :=
               (if overlaid then scene_videos st @ [final_video output_dir sc]
                else scene_videos st @ [raw_video output_dir sc])\<rparr>)"

text \<open>
  How the body of the loop ends: it goes on to the next scene (by \<^verbatim>\<open>continue\<close> or at
  its end), an exception leaves it, or the animation stage is still polling.
\<close>

datatype flow = Next_scene | Uncaught exn | Still_polling

text \<open>Lines 377-437: the body of \<^verbatim>\<open>for scene in SCENES\<close>.\<close>

definition process_scene ::
  "'f float_ops \<Rightarrow> 'w env \<Rightarrow> nat \<Rightarrow> path \<Rightarrow> scene \<Rightarrow> ('w, 'f) run_state
     \<Rightarrow> flow \<times> ('w, 'f) run_state" where
  "process_scene F E fuel output_dir sc st =
     (case image_step E output_dir sc st of
        (image_ready, st1) \<Rightarrow>
          (if \<not> image_ready then (Next_scene, st1)
           else
             (case animation_step E fuel output_dir sc st1 of
                (None, st2) \<Rightarrow> (Still_polling, st2)
              | (Some video_created, st2) \<Rightarrow>
                  (case fallback_step F E output_dir sc video_created st2 of
                     (Inl e, st3) \<Rightarrow> (Uncaught e, st3)
                   | (Inr video_created', st3) \<Rightarrow>
                       (if \<not> video_created' then (Next_scene, st3)
                        else (Next_scene, overlay_step E output_dir sc st3))))))"

fun process_scenes ::
  "'f float_ops \<Rightarrow> 'w env \<Rightarrow> nat \<Rightarrow> path \<Rightarrow> scene list \<Rightarrow> ('w, 'f) run_state
     \<Rightarrow> flow \<times> ('w, 'f) run_state" where
  "process_scenes F E fuel output_dir [] st = (Next_scene, st)"
| "process_scenes F E fuel output_dir (sc # scs) st =
     (case process_scene F E fuel output_dir sc st of
        (Next_scene, st1) \<Rightarrow> process_scenes F E fuel output_dir scs st1
      | (Uncaught e, st1) \<Rightarrow> (Uncaught e, st1)
      | (Still_polling, st1) \<Rightarrow> (Still_polling, st1))"

text \<open>
  How a run ends: \<^verbatim>\<open>sys.exit(1)\<close> for a missing key, an uncaught exception, the animation
  stage still polling, or one of the three final messages: \<^verbatim>\<open>SUCCESS!\<close> with the output
  path and the probed duration (\<open>None\<close> for the integer 0 of an empty probe output),
  \<^verbatim>\<open>FAILED to concatenate videos\<close>, and \<^verbatim>\<open>No scenes were successfully generated.\<close>
\<close>

datatype 'f run_end =
    Sys_exit int
  | Run_uncaught exn
  | Run_still_polling
  | Success path "'f option"
  | Failed_to_concatenate
  | No_scenes_generated

text \<open>\<^verbatim>\<open>str.strip()\<close> on ASCII text.\<close>

definition is_space :: "char \<Rightarrow> bool" where
  "is_space c =
     (c \<in> set [CHR 0x20, CHR 0x09, CHR 0x0A, CHR 0x0B, CHR 0x0C, CHR 0x0D,
                CHR 0x1C, CHR 0x1D, CHR 0x1E, CHR 0x1F])"

definition strip :: "string \<Rightarrow> string" where
  "strip s = rev (dropWhile is_space (rev (dropWhile is_space s)))"

definition probe_cmd :: "path \<Rightarrow> string list" where
  "probe_cmd final_output =
     [''ffprobe'', ''-v'', ''quiet'', ''-show_entries'',
      ''format=duration'', ''-of'', ''csv=p=0'', final_output]"

text \<open>Lines 439-465: the final assembly.\<close>

definition final_assembly ::
  "'f float_ops \<Rightarrow> 'w env \<Rightarrow> path \<Rightarrow> ('w, 'f) run_state \<Rightarrow> 'f run_end \<times> ('w, 'f) run_state" where
  "final_assembly F E output_dir st =
     (if scene_videos st \<noteq> [] then
        (let final_output = output_dir @ ''/final_video.mp4'' in
         case concatenate_videos E output_dir (scene_videos st) final_output (outside st) of
           (returned, s1) \<Rightarrow>
             (let st1 = st\<lparr>outside := s1,
                           calls := calls st
                             @ [Called_concatenate (scene_videos st) final_output returned]\<rparr>
              in case returned of
                   Inl e \<Rightarrow> (Run_uncaught e, st1)
                 | Inr concatenated \<Rightarrow>
                     (if concatenated then
                        (case do_subprocess_run E (probe_cmd final_output) s1 of
                           (Spawn_failed e, s2) \<Rightarrow> (Run_uncaught e, st1\<lparr>outside := s2\<rparr>)
                         | (Completed returncode out err, s2) \<Rightarrow>
                             (if strip out \<noteq> [] then
                                (case float_parse F (strip out) of
                                   None \<Rightarrow>
                                     (Run_uncaught
                                        (Exception (''could not convert string to float: ''
                                                    @ quoted (strip out))),
                                      st1\<lparr>outside := s2\<rparr>)
                                 | Some duration \<Rightarrow>
                                     (Success final_output (Some duration), st1\<lparr>outside := s2\<rparr>))
                              else (Success final_output None, st1\<lparr>outside := s2\<rparr>)))
                      else (Failed_to_concatenate, st1))))
      else (No_scenes_generated, st))"

text \<open>
  Lines 362-465: \<^verbatim>\<open>main\<close>, started in the world \<open>w\<close>. A key that is absent or empty
  ends the run before any scene. Building the client from the key and the progress
  messages are left out. \<open>fuel\<close> bounds the polls of each call of the animation stage, so
  a property of the state that holds for every \<open>fuel\<close> holds at every point a run of the
  program reaches.
\<close>

definition initial_state :: "'w \<Rightarrow> ('w, 'f) run_state" where
  "initial_state w = \<lparr>use_veo = True, scene_videos = [], outside = (w, []), calls = []\<rparr>"

definition main ::
  "'f float_ops \<Rightarrow> 'w env \<Rightarrow> nat \<Rightarrow> path \<Rightarrow> scene list \<Rightarrow> 'w \<Rightarrow> 'f run_end \<times> ('w, 'f) run_state" where
  "main F E fuel output_dir scenes w =
     (case find_api_key E w of
        None \<Rightarrow> (Sys_exit 1, initial_state w)
      | Some api_key \<Rightarrow>
          (if api_key = [] then (Sys_exit 1, initial_state w)
           else
             (case process_scenes F E fuel output_dir scenes (initial_state w) of
                (Next_scene, st) \<Rightarrow> final_assembly F E output_dir st
              | (Uncaught e, st) \<Rightarrow> (Run_uncaught e, st)
              | (Still_polling, st) \<Rightarrow> (Run_still_polling, st))))"


section \<open>A simulated environment, and the words of the specification\<close>

text \<open>
  An environment to run the model in. The world is the list of the files that exist; the
  image service always gives \<open>image_reply\<close>, the video service always gives
  \<open>video_reply\<close>, a pending job is done at its first re-query, and the media tool answers
  a command with \<open>tool\<close>. Writing or saving a file makes it exist; sleeping changes
  nothing.
\<close>

definition sim_env ::
  "(exn + bytes list) \<Rightarrow> (exn + operation) \<Rightarrow> (string list \<Rightarrow> proc) \<Rightarrow> path list env" where
  "sim_env image_reply video_reply tool =
     \<lparr> find_api_key = (\<lambda>w. Some ''key''),
       path_exists = (\<lambda>w p. p \<in> set w),
       sleep = (\<lambda>n w. w),
       generate_images = (\<lambda>prompt w. (image_reply, w)),
       write_bytes = (\<lambda>p b w. (Inr (), p # w)),
       read_bytes = (\<lambda>p w. (Inr ''png'', w)),
       generate_videos = (\<lambda>prompt b w. (video_reply, w)),
       operations_get = (\<lambda>operation w. (Inr (operation\<lparr>op_done := True\<rparr>), w)),
       files_download = (\<lambda>v w. (Inr (), w)),
       video_save = (\<lambda>v p w. (Inr (), p # w)),
       subprocess_run = (\<lambda>cmd w. (tool cmd, w)),
       write_text = (\<lambda>p t w. (Inr (), p # w)),
       unlink = (\<lambda>p w. (Inr (), removeAll p w)) \<rparr>"

text \<open>Two scenes in the shape of the entries of \<^verbatim>\<open>SCENES\<close>, with short texts.\<close>

definition scene_one :: scene where
  "scene_one =
     \<lparr>scene_id = 1, scene_text = ''You are growing'', objective = ''mirror scene'',
      camera = ''slow zoom-in'', scene_prompt = ''A young woman at a mirror''\<rparr>"

definition scene_two :: scene where
  "scene_two =
     \<lparr>scene_id = 2, scene_text = ''Grace writes'', objective = ''window shot'',
      camera = ''slow outside-in drift'', scene_prompt = ''View through a window''\<rparr>"


text \<open>
  Reading the log of stage calls: a call of the animation stage, one that came back False,
  and the property that after a call that came back False no later call of the animation
  stage is logged.
\<close>

fun is_animation_call :: "'f call_event \<Rightarrow> bool" where
  "is_animation_call (Called_generate_video i p out r) = True"
| "is_animation_call ev = False"

fun animation_failed :: "'f call_event \<Rightarrow> bool" where
  "animation_failed (Called_generate_video i p out r) = (r = Some False)"
| "animation_failed ev = False"

fun animation_off_after_failure :: "'f call_event list \<Rightarrow> bool" where
  "animation_off_after_failure [] = True"
| "animation_off_after_failure (ev # evs) =
     (if animation_failed ev then list_all (\<lambda>e. \<not> is_animation_call e) evs
      else animation_off_after_failure evs)"

text \<open>
  A logged call respects the reuse of the image \<open>img\<close>: it is not a call of the image
  stage, and if it is a call of the animation or fallback stage, its input is \<open>img\<close>.
\<close>

fun reuses_image :: "path \<Rightarrow> 'f call_event \<Rightarrow> bool" where
  "reuses_image img (Called_generate_image p out r) = False"
| "reuses_image img (Called_generate_video i p out r) = (i = img)"
| "reuses_image img (Called_create_fallback i out d m r) = (i = img)"
| "reuses_image img ev = True"

fun is_concatenate :: "'f call_event \<Rightarrow> bool" where
  "is_concatenate (Called_concatenate vs out r) = True"
| "is_concatenate ev = False"

text \<open>The stage calls logged between a state and a later one.\<close>

definition new_calls :: "('w, 'f) run_state \<Rightarrow> ('w, 'f) run_state \<Rightarrow> 'f call_event list" where
  "new_calls st st' = drop (length (calls st)) (calls st')"

text \<open>
  The flag and the log agree: the log has the property above, and while \<^verbatim>\<open>use_veo\<close>
  is still set no call of the animation stage has come back False.
\<close>

definition flag_agrees :: "('w, 'f) run_state \<Rightarrow> bool" where
  "flag_agrees st =
     (animation_off_after_failure (calls st)
      \<and> (if use_veo st then list_all (\<lambda>e. \<not> animation_failed e) (calls st) else True))"

section \<open>The fallback command\<close>


text \<open>
  C1, as stated, fails: with the unrecognized name \<^verbatim>\<open>zoom-in\<close> (the default of the
  parameter) the command differs from the one for \<^verbatim>\<open>slow zoom-in\<close>.
\<close>

theorem unrecognized_preset_counterexample:
  "fallback_cmd whole_floats ''scene_1_raw.png'' ''scene_1_raw.mp4'' 6 ''zoom-in''
     \<noteq> fallback_cmd whole_floats ''scene_1_raw.png'' ''scene_1_raw.mp4'' 6 ''slow zoom-in''"
  by (simp add: fallback_cmd_def filter_complex_def)

text \<open>
  C1, amended. For a preset name that is not one of the four recognized ones, the command
  is the one for \<^verbatim>\<open>slow zoom-in\<close> except for its filter graph, which is centre-anchored
  with the same zoom step 0.0003 but caps the zoom at 1.1, where \<^verbatim>\<open>slow zoom-in\<close> caps
  it at 1.12.
\<close>

theorem unrecognized_preset_cmd:
  assumes "motion \<notin> set recognized_presets"
  shows "fallback_cmd F image_path output_video d motion =
           (fallback_cmd F image_path output_video d ''slow zoom-in'')
             [7 := ''[0:v]scale=8000:-1,zoompan=z='min(zoom+0.0003,1.1)':''
                   @ ''d='' @ frame_count F d
                   @ '':x='iw/2-(iw/zoom/2)':y='ih/2-(ih/zoom/2)':''
                   @ ''s=720x1280,setsar=1[v]'']
         \<and> fallback_cmd F image_path output_video d ''slow zoom-in'' ! 7 =
             ''[0:v]scale=8000:-1,zoompan=z='min(zoom+0.0003,1.12)':''
               @ ''d='' @ frame_count F d
               @ '':x='iw/2-(iw/zoom/2)':y='ih/2-(ih/zoom/2)':''
               @ ''s=720x1280,setsar=1[v]''"
  using assms
  by (simp add: fallback_cmd_def filter_complex_def recognized_presets_def)

text \<open>The amended C1 at the default name \<^verbatim>\<open>zoom-in\<close> and a duration of six seconds.\<close>

theorem unrecognized_preset_cmd_witness:
  "''zoom-in'' \<notin> set recognized_presets
   \<and> fallback_cmd whole_floats ''scene_1_raw.png'' ''scene_1_raw.mp4'' 6 ''zoom-in'' =
      [''ffmpeg'', ''-y'', ''-loop'', ''1'', ''-i'', ''scene_1_raw.png'', ''-filter_complex'',
       ''[0:v]scale=8000:-1,zoompan=z='min(zoom+0.0003,1.1)':d=150:x='iw/2-(iw/zoom/2)':y='ih/2-(ih/zoom/2)':s=720x1280,setsar=1[v]'',
       ''-map'', ''[v]'', ''-c:v'', ''libx264'', ''-t'', ''6.0'', ''-pix_fmt'', ''yuv420p'',
       ''-r'', ''25'', ''scene_1_raw.mp4'']"
proof -
  have h: "''zoom-in'' \<notin> set recognized_presets"
    by (simp add: recognized_presets_def)
  have fc: "frame_count whole_floats 6 = ''150''"
    by (simp add: frame_count_def whole_floats_def show_int_def show_nat.simps)
  have fs: "float_str whole_floats 6 = ''6.0''"
    by (simp add: whole_floats_def show_int_def show_nat.simps)
  show ?thesis
    using h unrecognized_preset_cmd
      [OF h, of whole_floats "''scene_1_raw.png''" "''scene_1_raw.mp4''" 6]
    by (simp add: fallback_cmd_def filter_complex_def fc fs)
qed

section \<open>The image stage on an empty response\<close>

lemma image_attempt_empty:
  assumes "fst (generate_images E prompt (fst s)) = Inr []"
  shows "image_attempt E prompt out s =
           (Inr False, (snd (generate_images E prompt (fst s)), snd s @ [Generate_images prompt]))"
  using assms
  by (cases "generate_images E prompt (fst s)")
     (simp add: image_attempt_def do_generate_images_def)

lemma generate_image_loop_empty:
  assumes "\<forall>w. fst (generate_images E prompt w) = Inr []"
  shows "fst (generate_image_loop E prompt out m a s) = False
         \<and> snd (snd (generate_image_loop E prompt out m a s)) =
             snd s @ replicate (nat (m - int a)) (Generate_images prompt)"
  using assms
proof (induction E prompt out m a s rule: generate_image_loop.induct)
  case (1 E prompt out m a s)
  show ?case
  proof (cases "int a < m")
    case False
    then show ?thesis by (simp add: generate_image_loop.simps)
  next
    case True
    let ?s1 = "(snd (generate_images E prompt (fst s)), snd s @ [Generate_images prompt])"
    have att: "image_attempt E prompt out s = (Inr False, ?s1)"
      using "1.prems" by (simp add: image_attempt_empty)
    have step: "generate_image_loop E prompt out m a s =
                generate_image_loop E prompt out m (Suc a) ?s1"
      using True att by (subst generate_image_loop.simps) simp
    have ih: "fst (generate_image_loop E prompt out m (Suc a) ?s1) = False
         \<and> snd (snd (generate_image_loop E prompt out m (Suc a) ?s1)) =
             snd ?s1 @ replicate (nat (m - int (Suc a))) (Generate_images prompt)"
      using "1.IH"(2) [OF _ att [symmetric] refl] True "1.prems" by simp
    have "nat (m - int a) = Suc (nat (m - int (Suc a)))"
      using True by simp
    then show ?thesis
      using step ih by (simp add: replicate_app_Cons_same)
  qed
qed

text \<open>
  C10. When the remote text-to-image operation answers every call with a successful
  response whose list of images is empty, the image stage returns False, and what it did
  is exactly \<open>max_retries\<close> remote calls: no file is written, no attempt counts as a
  success, and it does not stop before the attempts are used up.
\<close>

theorem empty_response_exhausts_attempts:
  assumes "\<forall>w. fst (generate_images E prompt w) = Inr []"
  shows "fst (generate_image E prompt output_path max_retries s) = False
         \<and> snd (snd (generate_image E prompt output_path max_retries s)) =
             snd s @ replicate (nat max_retries) (Generate_images prompt)"
  using generate_image_loop_empty [OF assms, of output_path max_retries 0 s]
  by (simp add: generate_image_def)

text \<open>C10 in the simulated environment, with the five attempts of the orchestrator.\<close>

theorem empty_response_exhausts_attempts_witness:
  "(\<forall>w. fst (generate_images (sim_env (Inr []) (Inl (Exception ''off'')) (\<lambda>cmd. Completed 0 [] []))
               ''a prompt'' w) = Inr [])
   \<and> generate_image (sim_env (Inr []) (Inl (Exception ''off'')) (\<lambda>cmd. Completed 0 [] []))
        ''a prompt'' ''out/scene_1_raw.png'' 5 ([], []) =
      (False, ([], [Generate_images ''a prompt'', Generate_images ''a prompt'',
                    Generate_images ''a prompt'', Generate_images ''a prompt'',
                    Generate_images ''a prompt'']))"
proof -
  let ?E = "sim_env (Inr []) (Inl (Exception ''off'')) (\<lambda>cmd. Completed 0 [] [])"
  have h: "\<forall>w. fst (generate_images ?E ''a prompt'' w) = Inr []"
    by (simp add: sim_env_def)
  have w: "fst (snd (generate_image ?E ''a prompt'' ''out/scene_1_raw.png'' 5 ([], []))) = []"
    by (simp add: generate_image_def generate_image_loop.simps image_attempt_def
          do_generate_images_def sim_env_def)
  have r: "replicate 5 (Generate_images ''a prompt'') =
           [Generate_images ''a prompt'', Generate_images ''a prompt'',
            Generate_images ''a prompt'', Generate_images ''a prompt'',
            Generate_images ''a prompt'']"
    by code_simp
  show ?thesis
    using h w empty_response_exhausts_attempts [OF h, of "''out/scene_1_raw.png''" 5 "([], [])"]
    by (simp add: r prod_eq_iff)
qed


section \<open>Backoff in the two retrying stages\<close>






text \<open>
  C3 does not hold of the code. With the video service answering \<^verbatim>\<open>503 UNAVAILABLE\<close> to
  every call and three attempts, the animation stage sleeps a fixed ten seconds after the
  first and the second attempt and returns False right after the third, with no wait. The
  image stage, on the same error, backs off 5, 10, 20 seconds. Only a quota error is backed
  off in the animation stage.
\<close>

theorem animation_unavailable_fixed_delay:
  "generate_video_from_image
     (sim_env (Inr [''image'']) (Inl (Exception ''503 UNAVAILABLE'')) (\<lambda>cmd. Completed 0 [] []))
     4 ''scene_1_raw.png'' ''move'' ''scene_1_raw.mp4'' 3 ([], []) =
   (Some False,
    ([], [Read_bytes ''scene_1_raw.png'', Generate_videos ''move'' ''png'', Sleep 10,
          Read_bytes ''scene_1_raw.png'', Generate_videos ''move'' ''png'', Sleep 10,
          Read_bytes ''scene_1_raw.png'', Generate_videos ''move'' ''png'']))
   \<and> generate_image
       (sim_env (Inl (Exception ''503 UNAVAILABLE'')) (Inl (Exception ''503 UNAVAILABLE''))
          (\<lambda>cmd. Completed 0 [] []))
       ''a prompt'' ''scene_1_raw.png'' 3 ([], []) =
     (False,
      ([], [Generate_images ''a prompt'', Sleep 5, Generate_images ''a prompt'', Sleep 10,
            Generate_images ''a prompt'', Sleep 20]))
   \<and> video_retry 0 3 ''503 UNAVAILABLE'' = Wait 10
   \<and> video_retry 1 3 ''503 UNAVAILABLE'' = Wait 10
   \<and> video_retry 2 3 ''503 UNAVAILABLE'' = Give_up
   \<and> video_retry 0 3 ''429 RESOURCE_EXHAUSTED'' = Wait 30
   \<and> video_retry 2 3 ''429 RESOURCE_EXHAUSTED'' = Wait 120"
  by (simp add: generate_video_from_image_def generate_video_loop.simps video_attempt_def
      generate_image_def generate_image_loop.simps image_attempt_def image_retry_def
      do_read_bytes_def do_generate_videos_def do_generate_images_def do_sleep_def
      video_retry_def sim_env_def)

section \<open>Exceptions that leave a stage\<close>

text \<open>
  C5 does not hold of the code. When the media tool cannot be started (the executable is
  absent, so \<^verbatim>\<open>subprocess.run\<close> raises FileNotFoundError), the caption overlay stage
  returns False, but the fallback stage and the assembly stage let the exception through,
  and it ends the run.
\<close>

theorem tool_not_started_propagates:
  "fst (create_fallback_video whole_floats
          (sim_env (Inr [''image'']) (Inl (Exception ''off''))
             (\<lambda>cmd. Spawn_failed (Exception ''[Errno 2] No such file or directory: ffmpeg'')))
          ''scene_1_raw.png'' ''scene_1_raw.mp4'' 6 ''slow zoom-in'' ([], []))
     = Inl (Exception ''[Errno 2] No such file or directory: ffmpeg'')
   \<and> fst (concatenate_videos
          (sim_env (Inr [''image'']) (Inl (Exception ''off''))
             (\<lambda>cmd. Spawn_failed (Exception ''[Errno 2] No such file or directory: ffmpeg'')))
          ''out'' [''out/scene_1.mp4''] ''out/final_video.mp4'' ([], []))
     = Inl (Exception ''[Errno 2] No such file or directory: ffmpeg'')
   \<and> fst (add_text_overlay_to_video
          (sim_env (Inr [''image'']) (Inl (Exception ''off''))
             (\<lambda>cmd. Spawn_failed (Exception ''[Errno 2] No such file or directory: ffmpeg'')))
          ''out/scene_1_raw.mp4'' ''out/scene_1.mp4'' ''caption'' ([], []))
     = False
   \<and> fst (main whole_floats
          (sim_env (Inr [''image'']) (Inl (Exception ''off''))
             (\<lambda>cmd. Spawn_failed (Exception ''[Errno 2] No such file or directory: ffmpeg'')))
          4 ''out'' [scene_one, scene_two] [])
     = Run_uncaught (Exception ''[Errno 2] No such file or directory: ffmpeg'')"
  by (simp add: create_fallback_video_def concatenate_videos_def add_text_overlay_to_video_def
      do_subprocess_run_def do_write_text_def sim_env_def
      main_def initial_state_def process_scene_def image_step_def animation_step_def
      fallback_step_def generate_image_def generate_image_loop.simps image_attempt_def
      do_generate_images_def do_write_bytes_def
      generate_video_from_image_def generate_video_loop.simps video_attempt_def
      do_read_bytes_def do_generate_videos_def do_sleep_def video_retry_def
      scene_one_def scene_two_def raw_image_def raw_video_def show_int_def show_nat.simps
      Let_def)


section \<open>The shape of a scene in the log of stage calls\<close>

lemma image_step_shape:
  "\<exists>evs. calls (snd (image_step E out sc st)) = calls st @ evs
     \<and> (evs = [] \<or> (\<exists>r. evs = [Called_generate_image (scene_prompt sc) (raw_image out sc) r]))
     \<and> use_veo (snd (image_step E out sc st)) = use_veo st
     \<and> scene_videos (snd (image_step E out sc st)) = scene_videos st"
  by (simp add: image_step_def split: prod.splits)

lemma animation_step_shape:
  "\<exists>evs. calls (snd (animation_step E fuel out sc st)) = calls st @ evs
     \<and> (evs = [] \<and> use_veo (snd (animation_step E fuel out sc st)) = use_veo st
          \<and> fst (animation_step E fuel out sc st) = Some False
        \<or> (\<exists>r. evs = [Called_generate_video (raw_image out sc) (animation_prompt sc)
                          (raw_video out sc) r]
              \<and> use_veo st
              \<and> fst (animation_step E fuel out sc st) = r
              \<and> use_veo (snd (animation_step E fuel out sc st)) = (r \<noteq> Some False)))
     \<and> scene_videos (snd (animation_step E fuel out sc st)) = scene_videos st"
  by (auto simp add: animation_step_def Let_def split: prod.splits option.splits)

lemma fallback_step_shape:
  "\<exists>evs. calls (snd (fallback_step F E out sc vc st)) = calls st @ evs
     \<and> (evs = [] \<or> (\<exists>r. evs = [Called_create_fallback (raw_image out sc) (raw_video out sc)
                                  (float_of_int F 6) (camera sc) r]))
     \<and> use_veo (snd (fallback_step F E out sc vc st)) = use_veo st
     \<and> scene_videos (snd (fallback_step F E out sc vc st)) = scene_videos st"
  by (simp add: fallback_step_def split: prod.splits)

lemma overlay_step_shape:
  "calls (overlay_step E out sc st) =
     calls st @ [Called_add_text_overlay (raw_video out sc) (final_video out sc) (scene_text sc)
       (fst (add_text_overlay_to_video E (raw_video out sc) (final_video out sc)
               (scene_text sc) (outside st)))]
   \<and> use_veo (overlay_step E out sc st) = use_veo st
   \<and> scene_videos (overlay_step E out sc st) =
       scene_videos st @ [if fst (add_text_overlay_to_video E (raw_video out sc)
                                    (final_video out sc) (scene_text sc) (outside st))
                          then final_video out sc else raw_video out sc]"
  by (simp add: overlay_step_def split: prod.splits)


lemma process_scene_shape:
  "\<exists>a b c d.
     calls (snd (process_scene F E fuel out sc st)) = calls st @ a @ b @ c @ d
     \<and> calls (snd (image_step E out sc st)) = calls st @ a
     \<and> (a = [] \<or> (\<exists>r. a = [Called_generate_image (scene_prompt sc) (raw_image out sc) r]))
     \<and> (b = [] \<and> use_veo (snd (process_scene F E fuel out sc st)) = use_veo st
          \<or> (\<exists>r. b = [Called_generate_video (raw_image out sc) (animation_prompt sc)
                          (raw_video out sc) r]
                \<and> use_veo st
                \<and> use_veo (snd (process_scene F E fuel out sc st)) = (r \<noteq> Some False)))
     \<and> (c = [] \<or> (\<exists>r. c = [Called_create_fallback (raw_image out sc) (raw_video out sc)
                                (float_of_int F 6) (camera sc) r]))
     \<and> (d = [] \<and> scene_videos (snd (process_scene F E fuel out sc st)) = scene_videos st
          \<or> (\<exists>ok. d = [Called_add_text_overlay (raw_video out sc) (final_video out sc)
                           (scene_text sc) ok]
                \<and> fst (process_scene F E fuel out sc st) = Next_scene
                \<and> scene_videos (snd (process_scene F E fuel out sc st)) =
                    scene_videos st @ [if ok then final_video out sc else raw_video out sc]))"
proof -
  obtain ir st1 where i: "image_step E out sc st = (ir, st1)" by force
  obtain a where a: "calls st1 = calls st @ a"
      "a = [] \<or> (\<exists>r. a = [Called_generate_image (scene_prompt sc) (raw_image out sc) r])"
      "use_veo st1 = use_veo st" "scene_videos st1 = scene_videos st"
    using image_step_shape [of E out sc st] i by auto
  show ?thesis
  proof (cases ir)
    case False
    then have p: "process_scene F E fuel out sc st = (Next_scene, st1)"
      using i by (simp add: process_scene_def)
    show ?thesis
      apply (rule exI [of _ a], rule exI [of _ "[]"], rule exI [of _ "[]"], rule exI [of _ "[]"])
      using p i a by auto
  next
    case True
    obtain ar st2 where an: "animation_step E fuel out sc st1 = (ar, st2)" by force
    obtain b where b: "calls st2 = calls st1 @ b"
        "b = [] \<and> use_veo st2 = use_veo st1 \<and> ar = Some False
         \<or> (\<exists>r. b = [Called_generate_video (raw_image out sc) (animation_prompt sc)
                        (raw_video out sc) r]
               \<and> use_veo st1 \<and> ar = r \<and> use_veo st2 = (r \<noteq> Some False))"
        "scene_videos st2 = scene_videos st1"
      using animation_step_shape [of E fuel out sc st1] an by auto
    show ?thesis
    proof (cases ar)
      case None
      then have p: "process_scene F E fuel out sc st = (Still_polling, st2)"
        using i True an by (simp add: process_scene_def)
      show ?thesis
        apply (rule exI [of _ a], rule exI [of _ b], rule exI [of _ "[]"], rule exI [of _ "[]"])
        using p i a b by auto
    next
      case (Some vc)
      obtain fr st3 where f: "fallback_step F E out sc vc st2 = (fr, st3)" by force
      obtain c where c: "calls st3 = calls st2 @ c"
          "c = [] \<or> (\<exists>r. c = [Called_create_fallback (raw_image out sc) (raw_video out sc)
                                  (float_of_int F 6) (camera sc) r])"
          "use_veo st3 = use_veo st2" "scene_videos st3 = scene_videos st2"
        using fallback_step_shape [of F E out sc vc st2] f by auto
      show ?thesis
      proof (cases fr)
        case (Inl e)
        then have p: "process_scene F E fuel out sc st = (Uncaught e, st3)"
          using i True an Some f by (simp add: process_scene_def)
        show ?thesis
          apply (rule exI [of _ a], rule exI [of _ b], rule exI [of _ c], rule exI [of _ "[]"])
          using p i a b c by auto
      next
        case (Inr vc')
        show ?thesis
        proof (cases vc')
          case False
          then have p: "process_scene F E fuel out sc st = (Next_scene, st3)"
            using i \<open>ir\<close> an Some f Inr by (simp add: process_scene_def)
          show ?thesis
            apply (rule exI [of _ a], rule exI [of _ b], rule exI [of _ c], rule exI [of _ "[]"])
            using p i a b c by auto
        next
          case True
          then have p: "process_scene F E fuel out sc st = (Next_scene, overlay_step E out sc st3)"
            using i \<open>ir\<close> an Some f Inr by (simp add: process_scene_def)
          let ?ok = "fst (add_text_overlay_to_video E (raw_video out sc) (final_video out sc)
                            (scene_text sc) (outside st3))"
          let ?d = "[Called_add_text_overlay (raw_video out sc) (final_video out sc)
                       (scene_text sc) ?ok]"
          have d: "calls (overlay_step E out sc st3) = calls st3 @ ?d"
              "use_veo (overlay_step E out sc st3) = use_veo st3"
              "scene_videos (overlay_step E out sc st3) =
                 scene_videos st3 @ [if ?ok then final_video out sc else raw_video out sc]"
            using overlay_step_shape [of E out sc st3] by auto
          show ?thesis
            apply (rule exI [of _ a], rule exI [of _ b], rule exI [of _ c], rule exI [of _ ?d])
            using p i a b c d by auto
        qed
      qed
    qed
  qed
qed


lemma off_after_failure_append:
  "animation_off_after_failure (tr @ new) =
     (if list_all (\<lambda>e. \<not> animation_failed e) tr then animation_off_after_failure new
      else animation_off_after_failure tr \<and> list_all (\<lambda>e. \<not> is_animation_call e) new)"
  by (induction tr) auto

lemma no_failure_off:
  "list_all (\<lambda>e. \<not> animation_failed e) tr \<Longrightarrow> animation_off_after_failure tr"
  by (induction tr) auto

lemma process_scene_flag_agrees:
  assumes "flag_agrees st"
  shows "flag_agrees (snd (process_scene F E fuel out sc st))"
proof -
  obtain a b c d where s:
     "calls (snd (process_scene F E fuel out sc st)) = calls st @ a @ b @ c @ d"
     "a = [] \<or> (\<exists>r. a = [Called_generate_image (scene_prompt sc) (raw_image out sc) r])"
     "b = [] \<and> use_veo (snd (process_scene F E fuel out sc st)) = use_veo st
          \<or> (\<exists>r. b = [Called_generate_video (raw_image out sc) (animation_prompt sc)
                          (raw_video out sc) r]
                \<and> use_veo st
                \<and> use_veo (snd (process_scene F E fuel out sc st)) = (r \<noteq> Some False))"
     "c = [] \<or> (\<exists>r. c = [Called_create_fallback (raw_image out sc) (raw_video out sc)
                                (float_of_int F 6) (camera sc) r])"
     "d = [] \<or> (\<exists>ok. d = [Called_add_text_overlay (raw_video out sc) (final_video out sc)
                           (scene_text sc) ok])"
    using process_scene_shape [of F E fuel out sc st] by blast
  show ?thesis
    using assms s unfolding flag_agrees_def
    by (auto simp add: off_after_failure_append split: if_splits)
qed

lemma process_scene_stays_off:
  assumes "\<not> use_veo st"
  shows "\<not> use_veo (snd (process_scene F E fuel out sc st))
         \<and> (\<exists>new. calls (snd (process_scene F E fuel out sc st)) = calls st @ new
                \<and> list_all (\<lambda>e. \<not> is_animation_call e) new)"
proof -
  obtain a b c d where s:
     "calls (snd (process_scene F E fuel out sc st)) = calls st @ a @ b @ c @ d"
     "a = [] \<or> (\<exists>r. a = [Called_generate_image (scene_prompt sc) (raw_image out sc) r])"
     "b = [] \<and> use_veo (snd (process_scene F E fuel out sc st)) = use_veo st
          \<or> (\<exists>r. b = [Called_generate_video (raw_image out sc) (animation_prompt sc)
                          (raw_video out sc) r]
                \<and> use_veo st
                \<and> use_veo (snd (process_scene F E fuel out sc st)) = (r \<noteq> Some False))"
     "c = [] \<or> (\<exists>r. c = [Called_create_fallback (raw_image out sc) (raw_video out sc)
                                (float_of_int F 6) (camera sc) r])"
     "d = [] \<or> (\<exists>ok. d = [Called_add_text_overlay (raw_video out sc) (final_video out sc)
                           (scene_text sc) ok])"
    using process_scene_shape [of F E fuel out sc st] by blast
  have "list_all (\<lambda>e. \<not> is_animation_call e) (a @ b @ c @ d)"
    using assms s by auto
  then show ?thesis using assms s by blast
qed

lemma process_scenes_flag_agrees:
  "flag_agrees st \<Longrightarrow> flag_agrees (snd (process_scenes F E fuel out scs st))"
proof (induction scs arbitrary: st)
  case Nil
  then show ?case by simp
next
  case (Cons sc scs)
  obtain fl st1 where p: "process_scene F E fuel out sc st = (fl, st1)" by force
  have "flag_agrees st1"
    using process_scene_flag_agrees [OF Cons.prems, of F E fuel out sc] p by simp
  then show ?case
    using Cons.IH [of st1] p by (cases fl) simp_all
qed

lemma process_scenes_stays_off:
  "\<not> use_veo st \<Longrightarrow>
     \<not> use_veo (snd (process_scenes F E fuel out scs st))
     \<and> (\<exists>new. calls (snd (process_scenes F E fuel out scs st)) = calls st @ new
            \<and> list_all (\<lambda>e. \<not> is_animation_call e) new)"
proof (induction scs arbitrary: st)
  case Nil
  then show ?case by simp
next
  case (Cons sc scs)
  obtain fl st1 where p: "process_scene F E fuel out sc st = (fl, st1)" by force
  obtain new1 where n1: "\<not> use_veo st1" "calls st1 = calls st @ new1"
      "list_all (\<lambda>e. \<not> is_animation_call e) new1"
    using process_scene_stays_off [OF Cons.prems, of F E fuel out sc] p by auto
  show ?case
  proof (cases fl)
    case Next_scene
    obtain new2 where n2: "\<not> use_veo (snd (process_scenes F E fuel out scs st1))"
        "calls (snd (process_scenes F E fuel out scs st1)) = calls st1 @ new2"
        "list_all (\<lambda>e. \<not> is_animation_call e) new2"
      using Cons.IH [OF n1(1)] by auto
    have "process_scenes F E fuel out (sc # scs) st = process_scenes F E fuel out scs st1"
      using p Next_scene by simp
    then show ?thesis
      using n1 n2 by (intro conjI exI [of _ "new1 @ new2"]) simp_all
  next
    case (Uncaught e)
    then have "process_scenes F E fuel out (sc # scs) st = (Uncaught e, st1)"
      using p by simp
    then show ?thesis using n1 by auto
  next
    case Still_polling
    then have "process_scenes F E fuel out (sc # scs) st = (Still_polling, st1)"
      using p by simp
    then show ?thesis using n1 by auto
  qed
qed

lemma final_assembly_calls:
  "\<exists>new. calls (snd (final_assembly F E out st)) = calls st @ new
     \<and> list_all (\<lambda>e. \<not> is_animation_call e) new
     \<and> use_veo (snd (final_assembly F E out st)) = use_veo st"
  by (auto simp add: final_assembly_def Let_def split: prod.splits sum.splits proc.splits option.splits)

lemma main_flag_agrees: "flag_agrees (snd (main F E fuel out scenes w))"
proof -
  have i: "flag_agrees (initial_state w :: ('a, 'b) run_state)"
    by (simp add: flag_agrees_def initial_state_def)
  obtain fl st where p: "process_scenes F E fuel out scenes (initial_state w) = (fl, st)"
    by force
  have st: "flag_agrees st"
    using process_scenes_flag_agrees [OF i, of F E fuel out scenes] p by simp
  obtain new where n: "calls (snd (final_assembly F E out st)) = calls st @ new"
     "list_all (\<lambda>e. \<not> is_animation_call e) new"
     "use_veo (snd (final_assembly F E out st)) = use_veo st"
    using final_assembly_calls [of F E out st] by blast
  have nf: "list_all (\<lambda>e. \<not> animation_failed e) new"
    using n(2) by (induction new) (auto elim: animation_failed.elims)
  have fa: "flag_agrees (snd (final_assembly F E out st))"
    using st n nf no_failure_off [OF nf] unfolding flag_agrees_def
    by (auto simp add: off_after_failure_append split: if_splits)
  show ?thesis
    using i st fa p
    by (cases fl) (auto simp add: main_def split: option.splits)
qed

section \<open>Running the model\<close>

text \<open>The equations that evaluate a run in the simulated environment.\<close>

lemma poll_done: "op_done operation \<Longrightarrow> poll E fuel operation s = (Ok operation, s)"
  by (cases fuel) simp_all

lemmas run_simps = poll_done
  main_def initial_state_def process_scene_def image_step_def animation_step_def
  fallback_step_def overlay_step_def final_assembly_def
  generate_image_def generate_image_loop.simps image_attempt_def image_retry_def
  generate_video_from_image_def generate_video_loop.simps video_attempt_def video_retry_def
  create_fallback_video_def add_text_overlay_to_video_def concatenate_videos_def
  do_generate_images_def do_write_bytes_def do_read_bytes_def do_generate_videos_def
  do_operations_get_def do_files_download_def do_video_save_def do_subprocess_run_def
  do_write_text_def do_unlink_def do_sleep_def
  sim_env_def scene_one_def scene_two_def raw_image_def raw_video_def final_video_def
  show_int_def show_nat.simps new_calls_def strip_def is_space_def Let_def

lemma process_scene_log_grows:
  "calls (snd (process_scene F E fuel out sc st)) =
     calls st @ new_calls st (snd (process_scene F E fuel out sc st))"
  using process_scene_shape [of F E fuel out sc st] by (auto simp add: new_calls_def)

section \<open>Resumability: an image already on disk\<close>

text \<open>
  C7. If the file \<^verbatim>\<open>scene_<id>_raw.png\<close> exists when the scene is processed, step 1
  calls nothing and leaves the run as it is; among the stage calls the scene then makes
  there is no call of the image stage, and every call of the animation or fallback stage
  takes that file as its input image.
\<close>

theorem existing_image_is_reused:
  assumes "path_exists E (fst (outside st)) (raw_image output_dir sc)"
  shows "image_step E output_dir sc st = (True, st)
         \<and> calls (snd (process_scene F E fuel output_dir sc st)) =
             calls st @ new_calls st (snd (process_scene F E fuel output_dir sc st))
         \<and> list_all (reuses_image (raw_image output_dir sc))
             (new_calls st (snd (process_scene F E fuel output_dir sc st)))"
proof -
  have i: "image_step E output_dir sc st = (True, st)"
    using assms by (simp add: image_step_def)
  obtain a b c d where s:
     "calls (snd (process_scene F E fuel output_dir sc st)) = calls st @ a @ b @ c @ d"
     "calls (snd (image_step E output_dir sc st)) = calls st @ a"
     "b = [] \<or> (\<exists>r. b = [Called_generate_video (raw_image output_dir sc) (animation_prompt sc)
                          (raw_video output_dir sc) r])"
     "c = [] \<or> (\<exists>r. c = [Called_create_fallback (raw_image output_dir sc)
                           (raw_video output_dir sc) (float_of_int F 6) (camera sc) r])"
     "d = [] \<or> (\<exists>ok. d = [Called_add_text_overlay (raw_video output_dir sc)
                            (final_video output_dir sc) (scene_text sc) ok])"
    using process_scene_shape [of F E fuel output_dir sc st] by blast
  have a: "a = []" using s(2) i by simp
  have n: "new_calls st (snd (process_scene F E fuel output_dir sc st)) = b @ c @ d"
    using s(1) a by (simp add: new_calls_def)
  have "list_all (reuses_image (raw_image output_dir sc)) (b @ c @ d)"
    using s(3,4,5) by auto
  then show ?thesis
    using i n process_scene_log_grows [of F E fuel output_dir sc st] by simp
qed

text \<open>
  C7 in the simulated environment: the image of scene 1 is on disk, the animation succeeds,
  and the scene calls the animation stage on that image and then the caption overlay.
\<close>

theorem existing_image_is_reused_witness:
  "path_exists
     (sim_env (Inr [''image'']) (Inr \<lparr>op_done = True, response_video = Inr ''video''\<rparr>)
        (\<lambda>cmd. Completed 0 [] []))
     (fst (outside (initial_state [''out/scene_1_raw.png''] :: (path list, int) run_state)))
     (raw_image ''out'' scene_one)
   \<and> image_step
       (sim_env (Inr [''image'']) (Inr \<lparr>op_done = True, response_video = Inr ''video''\<rparr>)
          (\<lambda>cmd. Completed 0 [] []))
       ''out'' scene_one (initial_state [''out/scene_1_raw.png''] :: (path list, int) run_state) =
      (True, initial_state [''out/scene_1_raw.png''])
   \<and> list_all (reuses_image (raw_image ''out'' scene_one))
       (new_calls (initial_state [''out/scene_1_raw.png''])
          (snd (process_scene whole_floats
                  (sim_env (Inr [''image''])
                     (Inr \<lparr>op_done = True, response_video = Inr ''video''\<rparr>)
                     (\<lambda>cmd. Completed 0 [] []))
                  4 ''out'' scene_one (initial_state [''out/scene_1_raw.png'']))))
   \<and> new_calls (initial_state [''out/scene_1_raw.png''])
        (snd (process_scene whole_floats
                (sim_env (Inr [''image''])
                   (Inr \<lparr>op_done = True, response_video = Inr ''video''\<rparr>)
                   (\<lambda>cmd. Completed 0 [] []))
                4 ''out'' scene_one (initial_state [''out/scene_1_raw.png'']))) =
      [Called_generate_video ''out/scene_1_raw.png'' (animation_prompt scene_one)
         ''out/scene_1_raw.mp4'' (Some True),
       Called_add_text_overlay ''out/scene_1_raw.mp4'' ''out/scene_1.mp4''
         ''You are growing'' True]"
proof -
  let ?E = "sim_env (Inr [''image'']) (Inr \<lparr>op_done = True, response_video = Inr ''video''\<rparr>)
              (\<lambda>cmd. Completed 0 [] [])"
  let ?st = "initial_state [''out/scene_1_raw.png''] :: (path list, int) run_state"
  have h: "path_exists ?E (fst (outside ?st)) (raw_image ''out'' scene_one)"
    by (simp add: run_simps)
  have n: "new_calls ?st (snd (process_scene whole_floats ?E 4 ''out'' scene_one ?st)) =
      [Called_generate_video ''out/scene_1_raw.png'' (animation_prompt scene_one)
         ''out/scene_1_raw.mp4'' (Some True),
       Called_add_text_overlay ''out/scene_1_raw.mp4'' ''out/scene_1.mp4''
         ''You are growing'' True]"
    by (simp add: run_simps)
  from h n existing_image_is_reused [OF h, of whole_floats 4] show ?thesis by blast
qed

section \<open>Caption overlay failure\<close>

text \<open>
  C6. Whenever a scene calls the caption overlay stage, whatever the stage returns, the
  body of the loop ends normally and the run goes on with the remaining scenes; the
  scene appends exactly one path to \<^verbatim>\<open>scene_videos\<close>: the captioned path
  \<^verbatim>\<open>scene_<id>.mp4\<close> if the stage returned True, the raw path \<^verbatim>\<open>scene_<id>_raw.mp4\<close>
  if it returned False. The last conjunct says the same of step 3 alone, from any state.
\<close>

theorem caption_failure_keeps_raw_clip:
  assumes "Called_add_text_overlay input_video output_video caption overlaid
             \<in> set (new_calls st (snd (process_scene F E fuel output_dir sc st)))"
  shows "fst (process_scene F E fuel output_dir sc st) = Next_scene
         \<and> scene_videos (snd (process_scene F E fuel output_dir sc st)) =
             scene_videos st @ [if overlaid then final_video output_dir sc
                                else raw_video output_dir sc]
         \<and> process_scenes F E fuel output_dir (sc # scs) st =
             process_scenes F E fuel output_dir scs (snd (process_scene F E fuel output_dir sc st))
         \<and> scene_videos (overlay_step E output_dir sc st') =
             scene_videos st' @
               [if fst (add_text_overlay_to_video E (raw_video output_dir sc)
                          (final_video output_dir sc) (scene_text sc) (outside st'))
                then final_video output_dir sc else raw_video output_dir sc]"
proof -
  obtain a b c d where s:
     "calls (snd (process_scene F E fuel output_dir sc st)) = calls st @ a @ b @ c @ d"
     "a = [] \<or> (\<exists>r. a = [Called_generate_image (scene_prompt sc) (raw_image output_dir sc) r])"
     "b = [] \<or> (\<exists>r. b = [Called_generate_video (raw_image output_dir sc) (animation_prompt sc)
                          (raw_video output_dir sc) r])"
     "c = [] \<or> (\<exists>r. c = [Called_create_fallback (raw_image output_dir sc)
                           (raw_video output_dir sc) (float_of_int F 6) (camera sc) r])"
     "d = [] \<and> scene_videos (snd (process_scene F E fuel output_dir sc st)) = scene_videos st
          \<or> (\<exists>ok. d = [Called_add_text_overlay (raw_video output_dir sc)
                           (final_video output_dir sc) (scene_text sc) ok]
                \<and> fst (process_scene F E fuel output_dir sc st) = Next_scene
                \<and> scene_videos (snd (process_scene F E fuel output_dir sc st)) =
                    scene_videos st @ [if ok then final_video output_dir sc
                                       else raw_video output_dir sc])"
    using process_scene_shape [of F E fuel output_dir sc st] by blast
  have n: "new_calls st (snd (process_scene F E fuel output_dir sc st)) = a @ b @ c @ d"
    using s(1) by (simp add: new_calls_def)
  have ind: "Called_add_text_overlay input_video output_video caption overlaid \<in> set d"
    using assms n s(2,3,4) by auto
  have r: "fst (process_scene F E fuel output_dir sc st) = Next_scene
           \<and> scene_videos (snd (process_scene F E fuel output_dir sc st)) =
               scene_videos st @ [if overlaid then final_video output_dir sc
                                  else raw_video output_dir sc]"
    using ind s(5) by auto
  have nx: "process_scenes F E fuel output_dir (sc # scs) st =
             process_scenes F E fuel output_dir scs (snd (process_scene F E fuel output_dir sc st))"
    using r by (cases "process_scene F E fuel output_dir sc st") simp
  show ?thesis
    using r nx overlay_step_shape [of E output_dir sc st'] by simp
qed

text \<open>
  C6 in the simulated environment, with a media tool that fails on the drawtext command
  only: scene 1 contributes its raw video.
\<close>

theorem caption_failure_keeps_raw_clip_witness:
  "Called_add_text_overlay ''out/scene_1_raw.mp4'' ''out/scene_1.mp4'' ''You are growing'' False
     \<in> set (new_calls (initial_state [])
          (snd (process_scene whole_floats
                  (sim_env (Inr [''image''])
                     (Inr \<lparr>op_done = True, response_video = Inr ''video''\<rparr>)
                     (\<lambda>cmd. if ''-vf'' \<in> set cmd then Completed 1 [] ''drawtext failed''
                            else Completed 0 [] []))
                  4 ''out'' scene_one (initial_state []))))
   \<and> fst (process_scene whole_floats
            (sim_env (Inr [''image''])
               (Inr \<lparr>op_done = True, response_video = Inr ''video''\<rparr>)
               (\<lambda>cmd. if ''-vf'' \<in> set cmd then Completed 1 [] ''drawtext failed''
                      else Completed 0 [] []))
            4 ''out'' scene_one (initial_state [])) = Next_scene
   \<and> scene_videos (snd (process_scene whole_floats
            (sim_env (Inr [''image''])
               (Inr \<lparr>op_done = True, response_video = Inr ''video''\<rparr>)
               (\<lambda>cmd. if ''-vf'' \<in> set cmd then Completed 1 [] ''drawtext failed''
                      else Completed 0 [] []))
            4 ''out'' scene_one (initial_state []))) = [''out/scene_1_raw.mp4'']"
proof -
  let ?E = "sim_env (Inr [''image'']) (Inr \<lparr>op_done = True, response_video = Inr ''video''\<rparr>)
              (\<lambda>cmd. if ''-vf'' \<in> set cmd then Completed 1 [] ''drawtext failed''
                     else Completed 0 [] [])"
  let ?st = "initial_state [] :: (path list, int) run_state"
  have h: "Called_add_text_overlay ''out/scene_1_raw.mp4'' ''out/scene_1.mp4''
             ''You are growing'' False
           \<in> set (new_calls ?st (snd (process_scene whole_floats ?E 4 ''out'' scene_one ?st)))"
    by (simp add: run_simps overlay_cmd_def)
  have e: "scene_videos ?st = []" "raw_video ''out'' scene_one = ''out/scene_1_raw.mp4''"
    by (simp_all add: run_simps)
  from h caption_failure_keeps_raw_clip [OF h, of "[]" ?st] show ?thesis
    by (simp add: e)
qed

section \<open>A run in which no scene contributes\<close>

lemma process_scene_no_concatenate:
  assumes "list_all (\<lambda>ev. \<not> is_concatenate ev) (calls st)"
  shows "list_all (\<lambda>ev. \<not> is_concatenate ev) (calls (snd (process_scene F E fuel out sc st)))"
proof -
  obtain a b c d where s:
     "calls (snd (process_scene F E fuel out sc st)) = calls st @ a @ b @ c @ d"
     "a = [] \<or> (\<exists>r. a = [Called_generate_image (scene_prompt sc) (raw_image out sc) r])"
     "b = [] \<or> (\<exists>r. b = [Called_generate_video (raw_image out sc) (animation_prompt sc)
                          (raw_video out sc) r])"
     "c = [] \<or> (\<exists>r. c = [Called_create_fallback (raw_image out sc)
                           (raw_video out sc) (float_of_int F 6) (camera sc) r])"
     "d = [] \<or> (\<exists>ok. d = [Called_add_text_overlay (raw_video out sc)
                            (final_video out sc) (scene_text sc) ok])"
    using process_scene_shape [of F E fuel out sc st] by blast
  show ?thesis using assms s by auto
qed

lemma process_scenes_no_concatenate:
  "list_all (\<lambda>ev. \<not> is_concatenate ev) (calls st) \<Longrightarrow>
   list_all (\<lambda>ev. \<not> is_concatenate ev) (calls (snd (process_scenes F E fuel out scs st)))"
proof (induction scs arbitrary: st)
  case Nil
  then show ?case by simp
next
  case (Cons sc scs)
  obtain fl st1 where p: "process_scene F E fuel out sc st = (fl, st1)" by force
  have "list_all (\<lambda>ev. \<not> is_concatenate ev) (calls st1)"
    using process_scene_no_concatenate [OF Cons.prems, of F E fuel out sc] p by simp
  then show ?case
    using Cons.IH [of st1] p by (cases fl) simp_all
qed

text \<open>
  C8. If, with a key present, all scenes have been processed and \<^verbatim>\<open>scene_videos\<close> is
  empty, the run ends with the message that no scenes were generated, in the state the
  loop left: the final step performs no operation, and no call of
  \<^verbatim>\<open>concatenate_videos\<close> is in the log of the run.
\<close>

theorem no_scenes_no_assembly:
  assumes "find_api_key E w = Some api_key" and "api_key \<noteq> []"
    and "process_scenes F E fuel output_dir scenes (initial_state w) = (Next_scene, st)"
    and "scene_videos st = []"
  shows "main F E fuel output_dir scenes w = (No_scenes_generated, st)
         \<and> list_all (\<lambda>ev. \<not> is_concatenate ev) (calls st)"
proof -
  have "list_all (\<lambda>ev. \<not> is_concatenate ev) (calls (initial_state w :: ('a, 'b) run_state))"
    by (simp add: initial_state_def)
  from process_scenes_no_concatenate [OF this, of F E fuel output_dir scenes]
  have c: "list_all (\<lambda>ev. \<not> is_concatenate ev) (calls st)"
    using assms(3) by simp
  have "final_assembly F E output_dir st = (No_scenes_generated, st)"
    using assms(4) by (simp add: final_assembly_def)
  then show ?thesis
    using assms c by (simp add: main_def)
qed

text \<open>
  C8 in the simulated environment, with an image service that refuses every request: both
  scenes are abandoned, and the only stage calls of the run are the two failed calls of the
  image stage.
\<close>

theorem no_scenes_no_assembly_witness:
  "find_api_key (sim_env (Inl (Exception ''service refused'')) (Inl (Exception ''off''))
                   (\<lambda>cmd. Completed 0 [] [])) [] = Some ''key''
   \<and> ''key'' \<noteq> []
   \<and> process_scenes whole_floats
        (sim_env (Inl (Exception ''service refused'')) (Inl (Exception ''off''))
           (\<lambda>cmd. Completed 0 [] []))
        4 ''out'' [scene_one, scene_two] (initial_state []) =
      (Next_scene,
       snd (process_scenes whole_floats
              (sim_env (Inl (Exception ''service refused'')) (Inl (Exception ''off''))
                 (\<lambda>cmd. Completed 0 [] []))
              4 ''out'' [scene_one, scene_two] (initial_state [])))
   \<and> scene_videos
        (snd (process_scenes whole_floats
                (sim_env (Inl (Exception ''service refused'')) (Inl (Exception ''off''))
                   (\<lambda>cmd. Completed 0 [] []))
                4 ''out'' [scene_one, scene_two] (initial_state []))) = []
   \<and> fst (main whole_floats
            (sim_env (Inl (Exception ''service refused'')) (Inl (Exception ''off''))
               (\<lambda>cmd. Completed 0 [] []))
            4 ''out'' [scene_one, scene_two] []) = No_scenes_generated
   \<and> calls (snd (main whole_floats
            (sim_env (Inl (Exception ''service refused'')) (Inl (Exception ''off''))
               (\<lambda>cmd. Completed 0 [] []))
            4 ''out'' [scene_one, scene_two] [])) =
       [Called_generate_image ''A young woman at a mirror'' ''out/scene_1_raw.png'' False,
        Called_generate_image ''View through a window'' ''out/scene_2_raw.png'' False]"
proof -
  let ?E = "sim_env (Inl (Exception ''service refused'')) (Inl (Exception ''off''))
              (\<lambda>cmd. Completed 0 [] [])"
  let ?run = "process_scenes whole_floats ?E 4 ''out'' [scene_one, scene_two]
                (initial_state [] :: (path list, int) run_state)"
  have k: "find_api_key ?E [] = Some ''key''" by (simp add: sim_env_def)
  have ne: "''key'' \<noteq> []" by simp
  have f: "fst ?run = Next_scene" by (simp add: run_simps)
  have p: "?run = (Next_scene, snd ?run)" using f by (simp add: prod_eq_iff)
  have v: "scene_videos (snd ?run) = []" by (simp add: run_simps)
  have c: "calls (snd ?run) =
       [Called_generate_image ''A young woman at a mirror'' ''out/scene_1_raw.png'' False,
        Called_generate_image ''View through a window'' ''out/scene_2_raw.png'' False]"
    by (simp add: run_simps)
  from k ne p v c no_scenes_no_assembly [OF k ne p v] show ?thesis by simp
qed

section \<open>The animation flag\<close>

lemma failed_animation_clears_flag:
  assumes "use_veo st" and "\<not> path_exists E (fst (outside st)) (raw_video out sc)"
    and "fst (generate_video_from_image E fuel (raw_image out sc) (animation_prompt sc)
                (raw_video out sc) 3 (outside st)) = Some False"
  shows "\<not> use_veo (snd (animation_step E fuel out sc st))"
  using assms by (auto simp add: animation_step_def Let_def split: prod.splits option.splits)

lemma disabled_scene_goes_to_fallback:
  assumes off: "\<not> use_veo st"
    and ready: "fst (image_step E out sc st)"
    and novideo: "\<not> path_exists E (fst (outside (snd (image_step E out sc st)))) (raw_video out sc)"
  shows "\<exists>r rest. new_calls (snd (image_step E out sc st)) (snd (process_scene F E fuel out sc st)) =
           Called_create_fallback (raw_image out sc) (raw_video out sc) (float_of_int F 6)
             (camera sc) r # rest"
proof -
  obtain st1 where i: "image_step E out sc st = (True, st1)"
    using ready by (cases "image_step E out sc st") simp
  have off1: "\<not> use_veo st1"
    using image_step_shape [of E out sc st] i off by auto
  have an: "animation_step E fuel out sc st1 = (Some False, st1)"
    using off1 by (simp add: animation_step_def)
  obtain r s1 where cf: "create_fallback_video F E (raw_image out sc) (raw_video out sc)
                           (float_of_int F 6) (camera sc) (outside st1) = (r, s1)"
    by (metis surj_pair)
  let ?ev = "Called_create_fallback (raw_image out sc) (raw_video out sc) (float_of_int F 6)
               (camera sc) r"
  let ?st2 = "st1\<lparr>outside := s1, calls := calls st1 @ [?ev]\<rparr>"
  have fb: "fallback_step F E out sc False st1 = (r, ?st2)"
    using novideo i cf by (simp add: fallback_step_def)
  have "\<exists>rest. calls (snd (process_scene F E fuel out sc st)) = calls st1 @ ?ev # rest"
  proof (cases r)
    case (Inl e)
    then have "process_scene F E fuel out sc st = (Uncaught e, ?st2)"
      using i an fb by (simp add: process_scene_def)
    then show ?thesis by simp
  next
    case (Inr created)
    show ?thesis
    proof (cases created)
      case False
      then have "process_scene F E fuel out sc st = (Next_scene, ?st2)"
        using i an fb Inr by (simp add: process_scene_def)
      then show ?thesis by simp
    next
      case True
      then have "process_scene F E fuel out sc st = (Next_scene, overlay_step E out sc ?st2)"
        using i an fb Inr by (simp add: process_scene_def)
      then show ?thesis
        using overlay_step_shape [of E out sc ?st2] by simp
    qed
  qed
  then show ?thesis
    using i by (auto simp add: new_calls_def)
qed

text \<open>
  C2. (1) A call of the animation stage that returns False clears \<^verbatim>\<open>use_veo\<close>.
  (2) From a state in which \<^verbatim>\<open>use_veo\<close> is cleared, processing any list of further
  scenes leaves it cleared and logs no call of the animation stage. (3) In such a state, a
  scene whose image is ready and whose raw video is not on disk calls the fallback stage
  as its first stage after step 1. (4) In the log of every run of \<^verbatim>\<open>main\<close>, no call of
  the animation stage follows one that came back False.
\<close>

theorem animation_disabled_after_failure:
  "(use_veo st0 \<and> \<not> path_exists E (fst (outside st0)) (raw_video output_dir sc0)
      \<and> fst (generate_video_from_image E fuel (raw_image output_dir sc0) (animation_prompt sc0)
               (raw_video output_dir sc0) 3 (outside st0)) = Some False
     \<longrightarrow> \<not> use_veo (snd (animation_step E fuel output_dir sc0 st0)))
   \<and> (\<not> use_veo st
     \<longrightarrow> \<not> use_veo (snd (process_scenes F E fuel output_dir scs st))
         \<and> calls (snd (process_scenes F E fuel output_dir scs st)) =
             calls st @ new_calls st (snd (process_scenes F E fuel output_dir scs st))
         \<and> list_all (\<lambda>ev. \<not> is_animation_call ev)
             (new_calls st (snd (process_scenes F E fuel output_dir scs st))))
   \<and> (\<not> use_veo st \<and> fst (image_step E output_dir sc st)
      \<and> \<not> path_exists E (fst (outside (snd (image_step E output_dir sc st))))
            (raw_video output_dir sc)
     \<longrightarrow> (\<exists>r rest.
           new_calls (snd (image_step E output_dir sc st))
             (snd (process_scene F E fuel output_dir sc st)) =
           Called_create_fallback (raw_image output_dir sc) (raw_video output_dir sc)
             (float_of_int F 6) (camera sc) r # rest))
   \<and> animation_off_after_failure (calls (snd (main F E fuel output_dir scenes w)))"
proof (intro conjI impI)
  assume "use_veo st0 \<and> \<not> path_exists E (fst (outside st0)) (raw_video output_dir sc0)
      \<and> fst (generate_video_from_image E fuel (raw_image output_dir sc0) (animation_prompt sc0)
               (raw_video output_dir sc0) 3 (outside st0)) = Some False"
  then show "\<not> use_veo (snd (animation_step E fuel output_dir sc0 st0))"
    using failed_animation_clears_flag [of st0 E output_dir sc0 fuel] by blast
next
  assume off: "\<not> use_veo st"
  obtain new where n: "\<not> use_veo (snd (process_scenes F E fuel output_dir scs st))"
      "calls (snd (process_scenes F E fuel output_dir scs st)) = calls st @ new"
      "list_all (\<lambda>e. \<not> is_animation_call e) new"
    using process_scenes_stays_off [OF off, of F E fuel output_dir scs] by blast
  have nc: "new_calls st (snd (process_scenes F E fuel output_dir scs st)) = new"
    using n(2) by (simp add: new_calls_def)
  show "\<not> use_veo (snd (process_scenes F E fuel output_dir scs st))" by (rule n(1))
  show "calls (snd (process_scenes F E fuel output_dir scs st)) =
          calls st @ new_calls st (snd (process_scenes F E fuel output_dir scs st))"
    using n(2) nc by simp
  show "list_all (\<lambda>ev. \<not> is_animation_call ev)
          (new_calls st (snd (process_scenes F E fuel output_dir scs st)))"
    using n(3) nc by simp
next
  assume "\<not> use_veo st \<and> fst (image_step E output_dir sc st)
      \<and> \<not> path_exists E (fst (outside (snd (image_step E output_dir sc st))))
            (raw_video output_dir sc)"
  then show "\<exists>r rest.
           new_calls (snd (image_step E output_dir sc st))
             (snd (process_scene F E fuel output_dir sc st)) =
           Called_create_fallback (raw_image output_dir sc) (raw_video output_dir sc)
             (float_of_int F 6) (camera sc) r # rest"
    using disabled_scene_goes_to_fallback [of st E output_dir sc F fuel] by blast
next
  show "animation_off_after_failure (calls (snd (main F E fuel output_dir scenes w)))"
    using main_flag_agrees [of F E fuel output_dir scenes w] by (simp add: flag_agrees_def)
qed

text \<open>
  C2 in the simulated environment, with a video service that answers every request with a
  quota error: the animation stage fails on scene 1 after three attempts, and the run of
  the two scenes calls it once, as the second of its eight stage calls.
\<close>

theorem animation_disabled_after_failure_witness:
  "use_veo (initial_state [''out/scene_1_raw.png''] :: (path list, int) run_state)
   \<and> \<not> path_exists
         (sim_env (Inr [''image'']) (Inl (Exception ''429 RESOURCE_EXHAUSTED''))
            (\<lambda>cmd. Completed 0 [] []))
         (fst (outside (initial_state [''out/scene_1_raw.png''] :: (path list, int) run_state)))
         (raw_video ''out'' scene_one)
   \<and> fst (generate_video_from_image
            (sim_env (Inr [''image'']) (Inl (Exception ''429 RESOURCE_EXHAUSTED''))
               (\<lambda>cmd. Completed 0 [] []))
            4 (raw_image ''out'' scene_one) (animation_prompt scene_one)
            (raw_video ''out'' scene_one) 3
            (outside (initial_state [''out/scene_1_raw.png''] :: (path list, int) run_state)))
       = Some False
   \<and> \<not> use_veo (snd (animation_step
            (sim_env (Inr [''image'']) (Inl (Exception ''429 RESOURCE_EXHAUSTED''))
               (\<lambda>cmd. Completed 0 [] []))
            4 ''out'' scene_one
            (initial_state [''out/scene_1_raw.png''] :: (path list, int) run_state)))
   \<and> \<not> use_veo ((initial_state [])\<lparr>use_veo := False\<rparr> :: (path list, int) run_state)
   \<and> fst (image_step
            (sim_env (Inr [''image'']) (Inl (Exception ''429 RESOURCE_EXHAUSTED''))
               (\<lambda>cmd. Completed 0 [] []))
            ''out'' scene_two ((initial_state [])\<lparr>use_veo := False\<rparr> :: (path list, int) run_state))
   \<and> \<not> path_exists
         (sim_env (Inr [''image'']) (Inl (Exception ''429 RESOURCE_EXHAUSTED''))
            (\<lambda>cmd. Completed 0 [] []))
         (fst (outside (snd (image_step
            (sim_env (Inr [''image'']) (Inl (Exception ''429 RESOURCE_EXHAUSTED''))
               (\<lambda>cmd. Completed 0 [] []))
            ''out'' scene_two
            ((initial_state [])\<lparr>use_veo := False\<rparr> :: (path list, int) run_state)))))
         (raw_video ''out'' scene_two)
   \<and> \<not> use_veo (snd (process_scenes whole_floats
            (sim_env (Inr [''image'']) (Inl (Exception ''429 RESOURCE_EXHAUSTED''))
               (\<lambda>cmd. Completed 0 [] []))
            4 ''out'' [scene_one, scene_two] ((initial_state [])\<lparr>use_veo := False\<rparr>)))
   \<and> list_all (\<lambda>ev. \<not> is_animation_call ev)
        (new_calls ((initial_state [])\<lparr>use_veo := False\<rparr>)
           (snd (process_scenes whole_floats
              (sim_env (Inr [''image'']) (Inl (Exception ''429 RESOURCE_EXHAUSTED''))
                 (\<lambda>cmd. Completed 0 [] []))
              4 ''out'' [scene_one, scene_two] ((initial_state [])\<lparr>use_veo := False\<rparr>))))
   \<and> (\<exists>r rest.
         new_calls
           (snd (image_step
              (sim_env (Inr [''image'']) (Inl (Exception ''429 RESOURCE_EXHAUSTED''))
                 (\<lambda>cmd. Completed 0 [] []))
              ''out'' scene_two ((initial_state [])\<lparr>use_veo := False\<rparr>)))
           (snd (process_scene whole_floats
              (sim_env (Inr [''image'']) (Inl (Exception ''429 RESOURCE_EXHAUSTED''))
                 (\<lambda>cmd. Completed 0 [] []))
              4 ''out'' scene_two ((initial_state [])\<lparr>use_veo := False\<rparr>))) =
         Called_create_fallback (raw_image ''out'' scene_two) (raw_video ''out'' scene_two)
           (float_of_int whole_floats 6) (camera scene_two) r # rest)
   \<and> animation_off_after_failure
        (calls (snd (main whole_floats
           (sim_env (Inr [''image'']) (Inl (Exception ''429 RESOURCE_EXHAUSTED''))
              (\<lambda>cmd. Completed 0 [] []))
           4 ''out'' [scene_one, scene_two] [])))
   \<and> map is_animation_call
        (calls (snd (main whole_floats
           (sim_env (Inr [''image'']) (Inl (Exception ''429 RESOURCE_EXHAUSTED''))
              (\<lambda>cmd. Completed 0 [] []))
           4 ''out'' [scene_one, scene_two] []))) =
       [False, True, False, False, False, False, False, False]"
proof -
  let ?E = "sim_env (Inr [''image'']) (Inl (Exception ''429 RESOURCE_EXHAUSTED''))
              (\<lambda>cmd. Completed 0 [] [])"
  let ?before = "initial_state [''out/scene_1_raw.png''] :: (path list, int) run_state"
  let ?st = "(initial_state [])\<lparr>use_veo := False\<rparr> :: (path list, int) run_state"
  have h1: "use_veo ?before" by (simp add: initial_state_def)
  have h2: "\<not> path_exists ?E (fst (outside ?before)) (raw_video ''out'' scene_one)"
    by (simp add: run_simps)
  have h3: "fst (generate_video_from_image ?E 4 (raw_image ''out'' scene_one)
                   (animation_prompt scene_one) (raw_video ''out'' scene_one) 3 (outside ?before))
            = Some False"
    by (simp add: run_simps)
  have h4: "\<not> use_veo ?st" by simp
  have h5: "fst (image_step ?E ''out'' scene_two ?st)" by (simp add: run_simps)
  have h6: "\<not> path_exists ?E (fst (outside (snd (image_step ?E ''out'' scene_two ?st))))
              (raw_video ''out'' scene_two)"
    by (simp add: run_simps)
  have e: "map is_animation_call
             (calls (snd (main whole_floats ?E 4 ''out'' [scene_one, scene_two] []))) =
           [False, True, False, False, False, False, False, False]"
    by (simp add: run_simps)
  note th = animation_disabled_after_failure
    [of ?before ?E "''out''" scene_one 4 ?st whole_floats "[scene_one, scene_two]" scene_two
        "[scene_one, scene_two]" "[]"]
  from h1 h2 h3 h4 h5 h6 e th show ?thesis by blast
qed

end
